theory Spec2Isabelle
  imports Complex_Main
begin

section \<open>Shared types\<close>

text \<open>
  The enums of the shared package. JavaScript numbers are modelled as \<open>real\<close>: the
  scores are idealised, with no rounding error and no NaN or infinity.
\<close>

datatype RiskLevel = LOW | MODERATE | HIGH | CRITICAL

datatype ScanStatus = PENDING | RUNNING | COMPLETED | FAILED

section \<open>RiskCalculator (shared/src/utils.ts)\<close>

text \<open>
  The argument type of \<open>calculateLibraryRisk\<close>:
  \<^verbatim>\<open>Array<{ cvssScore?: number; severity: string }>\<close>.
\<close>

record RiskInput =
  cvssScore :: "real option"
  severity :: string

text \<open>\<^verbatim>\<open>v.cvssScore || 0\<close>: an absent score counts as 0.\<close>

definition cvssOrZero :: "RiskInput \<Rightarrow> real" where
  "cvssOrZero v = (case cvssScore v of None \<Rightarrow> 0 | Some c \<Rightarrow> c)"

text \<open>
  The filter predicate
  \<^verbatim>\<open>v.severity === 'CRITICAL' || (v.cvssScore && v.cvssScore >= 9.0)\<close>;
  a score of 0 is falsy.
\<close>

definition isCriticalInput :: "RiskInput \<Rightarrow> bool" where
  "isCriticalInput v =
     (severity v = ''CRITICAL'' \<or>
      (case cvssScore v of None \<Rightarrow> False | Some c \<Rightarrow> c \<noteq> 0 \<and> c \<ge> 9))"

text \<open>
  \<^verbatim>\<open>Math.max(...xs)\<close> on a list with first element \<open>x\<close>. The empty spread (which
  gives minus infinity in JavaScript) is never reached: both callers return before it.
\<close>

fun Math_max :: "real \<Rightarrow> real list \<Rightarrow> real" where
  "Math_max x [] = x"
| "Math_max x (y # ys) = Math_max (max x y) ys"

definition calculateLibraryRisk :: "RiskInput list \<Rightarrow> real \<Rightarrow> bool \<Rightarrow> real" where
  "calculateLibraryRisk vulnerabilities confidence hasPublicExploit =
     (case vulnerabilities of
        [] \<Rightarrow> 0
      | v # vs \<Rightarrow>
          (let maxCvss = Math_max (cvssOrZero v) (map cvssOrZero vs);
               criticalCount = length (filter isCriticalInput vulnerabilities);
               baseScore0 = maxCvss * 10;
               baseScore1 = baseScore0 * (confidence / 100);
               baseScore2 = baseScore1 + real criticalCount * 15;
               baseScore3 = (if hasPublicExploit then baseScore2 * (3 / 2) else baseScore2)
           in min 100 (max 0 baseScore3)))"

definition calculateGlobalRisk :: "real list \<Rightarrow> real \<Rightarrow> real" where
  "calculateGlobalRisk libraryRisks criticalFindings =
     (case libraryRisks of
        [] \<Rightarrow> 0
      | r # rs \<Rightarrow>
          (let maxRisk = Math_max r rs;
               avgRisk = foldl (\<lambda>s risk. s + risk) 0 libraryRisks / real (length libraryRisks);
               highRiskCount = length (filter (\<lambda>risk. risk \<ge> 70) libraryRisks);
               globalRisk0 = maxRisk * (4 / 10) + avgRisk * (3 / 10) + real highRiskCount * 5;
               globalRisk1 = globalRisk0 + criticalFindings * 10
           in min 100 (max 0 globalRisk1)))"

text \<open>\<^verbatim>\<open>Math.round\<close>: the nearest integer, halves rounded up.\<close>

definition Math_round :: "real \<Rightarrow> int" where
  "Math_round x = \<lfloor>x + 1 / 2\<rfloor>"

section \<open>Risk scoring in the minimal analyzer (api/src/minimal/analyzer.ts)\<close>

text \<open>
  The severity string the analyzer derives from a score before it calls the calculator
  (the same chain in the cache branch and in the feed branch of the enrichment loop).
\<close>

definition sevStr :: "real option \<Rightarrow> string" where
  "sevStr cvss =
     (case cvss of
        None \<Rightarrow> ''MEDIUM''
      | Some c \<Rightarrow>
          if c \<ge> 9 then ''CRITICAL''
          else if c \<ge> 7 then ''HIGH''
          else if c \<ge> 4 then ''MEDIUM''
          else ''LOW'')"

definition riskInputOf :: "real option \<Rightarrow> RiskInput" where
  "riskInputOf cvss = \<lparr>cvssScore = cvss, severity = sevStr cvss\<rparr>"

text \<open>
  The score the enrichment loop stores on a library:
  \<^verbatim>\<open>lib.riskScore = Math.round(RiskCalculator.calculateLibraryRisk(riskInputs, lib.confidence ?? 50, false))\<close>,
  run only when \<open>riskInputs\<close> is not empty.
\<close>

definition enrichedRiskScore :: "real option list \<Rightarrow> real option \<Rightarrow> int option" where
  "enrichedRiskScore scores confidence =
     (let riskInputs = map riskInputOf scores
      in if length riskInputs > 0
         then Some (Math_round (calculateLibraryRisk riskInputs
                      (case confidence of None \<Rightarrow> 50 | Some c \<Rightarrow> c) False))
         else None)"

text \<open>The fields of the rows that the models below read or write.\<close>

record Library =
  libScanId :: string
  libName :: string
  detectedVersion :: "string option"
  riskScore :: "real option"
  libConfidence :: "real option"

record Finding =
  findingScanId :: string
  findingType :: string
  title :: string
  findingSeverity :: RiskLevel
  evidence :: "string option"

record Script =
  scriptScanId :: string
  sourceUrl :: "string option"
  isInline :: bool
  artifactPath :: string

text \<open>
  The last block of \<open>minimalAnalyzeAndPersist\<close>: the value handed to
  \<open>updateScanRiskScore\<close>. \<^verbatim>\<open>l.riskScore || 0\<close> maps an absent score to 0.
\<close>

definition persistedGlobalRisk :: "Library list \<Rightarrow> Finding list \<Rightarrow> int" where
  "persistedGlobalRisk libraries findings =
     (let libraryRisks = map (\<lambda>l. case riskScore l of None \<Rightarrow> 0 | Some r \<Rightarrow> r) libraries;
          criticalFindings = length (filter (\<lambda>f. findingSeverity f = CRITICAL) findings)
      in if length libraryRisks > 0
         then Math_round (calculateGlobalRisk libraryRisks (real criticalFindings))
         else 0)"

section \<open>JavaScript string primitives\<close>

text \<open>
  Strings are lists of 8-bit characters. The white space of \<^verbatim>\<open>\s\<close> and of
  \<^verbatim>\<open>trim\<close> in that range: tab, line feed, vertical tab, form feed, carriage return,
  space and the no-break space.
\<close>

definition isWhiteSpace :: "char \<Rightarrow> bool" where
  "isWhiteSpace c =
     (let n = (of_char c :: nat)
      in n = 9 \<or> n = 10 \<or> n = 11 \<or> n = 12 \<or> n = 13 \<or> n = 32 \<or> n = 160)"

definition isDigit :: "char \<Rightarrow> bool" where
  "isDigit c = (let n = (of_char c :: nat) in 48 \<le> n \<and> n \<le> 57)"

text \<open>The word characters of \<^verbatim>\<open>\b\<close>: letters, digits and the underscore.\<close>

definition isWordChar :: "char \<Rightarrow> bool" where
  "isWordChar c =
     (let n = (of_char c :: nat)
      in (48 \<le> n \<and> n \<le> 57) \<or> (65 \<le> n \<and> n \<le> 90) \<or> (97 \<le> n \<and> n \<le> 122) \<or> n = 95)"

definition toLowerChar :: "char \<Rightarrow> char" where
  "toLowerChar c =
     (let n = (of_char c :: nat) in if 65 \<le> n \<and> n \<le> 90 then char_of (n + 32) else c)"

definition toLowerCase :: "string \<Rightarrow> string" where
  "toLowerCase s = map toLowerChar s"

definition startsWith :: "string \<Rightarrow> string \<Rightarrow> bool" where
  "startsWith s p = (take (length p) s = p)"

text \<open>\<^verbatim>\<open>s.trim()\<close>.\<close>

definition trim :: "string \<Rightarrow> string" where
  "trim s = rev (dropWhile isWhiteSpace (rev (dropWhile isWhiteSpace s)))"

text \<open>\<^verbatim>\<open>s.split(sep)\<close> for a one-character separator; the empty string gives one empty part.\<close>

fun split :: "char \<Rightarrow> string \<Rightarrow> string list" where
  "split sep [] = [[]]"
| "split sep (c # cs) =
     (if c = sep then [] # split sep cs
      else (case split sep cs of
              [] \<Rightarrow> [[c]]
            | p # ps \<Rightarrow> (c # p) # ps))"

text \<open>
  \<^verbatim>\<open>parseInt(s, 10)\<close>: leading white space, an optional sign, then the longest run of
  digits; \<open>None\<close> is NaN (no digit found).
\<close>

definition digitsValue :: "string \<Rightarrow> int" where
  "digitsValue ds = foldl (\<lambda>acc c. acc * 10 + (int (of_char c) - 48)) 0 ds"

definition parseInt :: "string \<Rightarrow> int option" where
  "parseInt s =
     (let t = dropWhile isWhiteSpace s;
          neg = (case t of [] \<Rightarrow> False | c # _ \<Rightarrow> c = CHR ''-'');
          u = (case t of [] \<Rightarrow> [] | c # cs \<Rightarrow> if c = CHR ''-'' \<or> c = CHR ''+'' then cs else t);
          ds = takeWhile isDigit u
      in if ds = [] then None
         else Some (if neg then - digitsValue ds else digitsValue ds))"

text \<open>\<^verbatim>\<open>/sub/.test(s)\<close> for a literal \<open>sub\<close>: \<open>sub\<close> occurs somewhere in \<open>s\<close>.\<close>

fun testLiteral :: "string \<Rightarrow> string \<Rightarrow> bool" where
  "testLiteral [] sub = (sub = [])"
| "testLiteral (c # cs) sub = (startsWith (c # cs) sub \<or> testLiteral cs sub)"

section \<open>SSRF validation (api/src/security/url-validator.ts)\<close>

text \<open>
  The parts of a parsed \<open>URL\<close> object the validator reads. The three platform
  functions it calls are parameters of the model: the URL parser (\<open>None\<close> when
  \<^verbatim>\<open>new URL\<close> throws), \<^verbatim>\<open>net.isIP\<close> (0, 4 or 6) and
  \<^verbatim>\<open>dns.promises.lookup(hostname, { all: true })\<close>, which gives the resolved addresses
  or rejects with an error code.
\<close>

record ParsedURL =
  protocol :: string
  hostname :: string

datatype DnsError = ENOTFOUND | EAI_AGAIN | OtherLookupError

record Platform =
  newURL :: "string \<Rightarrow> ParsedURL option"
  isIP :: "string \<Rightarrow> nat"
  lookup :: "string \<Rightarrow> DnsError + string list"

text \<open>The messages of the errors \<open>validateTargetUrl\<close> throws.\<close>

datatype UrlError =
    InvalidURL
  | UnsupportedProtocol
  | LocalAddress
  | PrivateAddress
  | FailedToResolve string
  | FailedToValidate

definition isPrivateIp :: "(string \<Rightarrow> nat) \<Rightarrow> string \<Rightarrow> bool" where
  "isPrivateIp isIPfn ip =
     (let kind = isIPfn ip
      in if kind = 4 then
           (let octets = map parseInt (split (CHR ''.'') ip)
            in if length octets \<noteq> 4 then False
               else if list_ex (\<lambda>n. n = None) octets then False
               else (let o1 = octets ! 0; o2 = octets ! 1
                     in if o1 = Some 10 then True
                        else if o1 = Some 127 then True
                        else if o1 = Some 169 \<and> o2 = Some 254 then True
                        else if o1 = Some 192 \<and> o2 = Some 168 then True
                        else if o1 = Some 172
                                \<and> (case o2 of None \<Rightarrow> False | Some n \<Rightarrow> n \<ge> 16 \<and> n \<le> 31) then True
                        else False))
         else if kind = 6 then
           (let lower = toLowerCase ip
            in if lower = ''::1'' then True
               else if startsWith lower ''fc'' \<or> startsWith lower ''fd'' then True
               else if startsWith lower ''fe80'' then True
               else False)
         else False)"

definition validateTargetUrl :: "Platform \<Rightarrow> string \<Rightarrow> UrlError + ParsedURL" where
  "validateTargetUrl pf rawUrl =
     (case newURL pf rawUrl of
        None \<Rightarrow> Inl InvalidURL
      | Some parsed \<Rightarrow>
          (let proto = toLowerCase (protocol parsed)
           in if proto \<noteq> ''http:'' \<and> proto \<noteq> ''https:'' then Inl UnsupportedProtocol
              else (let host = toLowerCase (hostname parsed)
                    in if host = ''localhost'' \<or> host = ''127.0.0.1'' \<or> host = ''::1''
                       then Inl LocalAddress
                       else (case lookup pf host of
                               Inr records \<Rightarrow>
                                 if list_ex (isPrivateIp (isIP pf)) records
                                 then Inl PrivateAddress
                                 else Inr parsed
                             | Inl ENOTFOUND \<Rightarrow> Inl (FailedToResolve host)
                             | Inl EAI_AGAIN \<Rightarrow> Inl (FailedToResolve host)
                             | Inl OtherLookupError \<Rightarrow> Inl FailedToValidate))))"

section \<open>The scans table (api/src/database.ts)\<close>

text \<open>
  A row of \<open>scans\<close>; times are milliseconds since the epoch. The database keeps the
  four tables the models touch and, as a history variable, every status value written to
  a scan row, in order.
\<close>

record Scan =
  scanId :: string
  scanUrl :: string
  scanStatus :: ScanStatus
  createdAt :: int
  startedAt :: "int option"
  completedAt :: "int option"
  globalRiskScore :: int
  scanError :: "string option"

record Database =
  scans :: "Scan list"
  scripts :: "Script list"
  libraries :: "Library list"
  findings :: "Finding list"
  statusWrites :: "(string \<times> ScanStatus) list"

definition getScan :: "Database \<Rightarrow> string \<Rightarrow> Scan option" where
  "getScan db ident = find (\<lambda>s. scanId s = ident) (scans db)"

text \<open>
  \<^verbatim>\<open>SELECT * FROM scans WHERE url = $1 ORDER BY created_at DESC LIMIT $2\<close>
  (rows with equal times keep the table's order here; SQL leaves their order open).
\<close>

definition getRecentScansByUrl :: "Database \<Rightarrow> string \<Rightarrow> nat \<Rightarrow> Scan list" where
  "getRecentScansByUrl db u limit =
     take limit (sort_key (\<lambda>s. - createdAt s) (filter (\<lambda>s. scanUrl s = u) (scans db)))"

definition getLibrariesByScan :: "Database \<Rightarrow> string \<Rightarrow> Library list" where
  "getLibrariesByScan db ident = filter (\<lambda>l. libScanId l = ident) (libraries db)"

definition getFindingsByScan :: "Database \<Rightarrow> string \<Rightarrow> Finding list" where
  "getFindingsByScan db ident = filter (\<lambda>f. findingScanId f = ident) (findings db)"

definition getScriptsByScan :: "Database \<Rightarrow> string \<Rightarrow> Script list" where
  "getScriptsByScan db ident = filter (\<lambda>s. scriptScanId s = ident) (scripts db)"

text \<open>
  \<open>Database.createScan\<close>: the INSERT; \<open>created_at\<close> takes its default, the time of
  the insert.
\<close>

definition Database_createScan :: "Database \<Rightarrow> string \<Rightarrow> string \<Rightarrow> int \<Rightarrow> Database" where
  "Database_createScan db ident u now =
     db\<lparr>scans := scans db @
            [\<lparr>scanId = ident, scanUrl = u, scanStatus = PENDING, createdAt = now,
              startedAt = None, completedAt = None, globalRiskScore = 0, scanError = None\<rparr>],
        statusWrites := statusWrites db @ [(ident, PENDING)]\<rparr>"

text \<open>
  The UPDATE that \<open>updateScanStatus\<close> builds, applied to one row: the status always,
  \<open>started_at\<close> for running, \<open>completed_at\<close> for completed and failed, and the
  error when it is a non-empty string. There is no condition on the row's current status.
\<close>

definition setStatus :: "ScanStatus \<Rightarrow> string option \<Rightarrow> int \<Rightarrow> Scan \<Rightarrow> Scan" where
  "setStatus st err now s =
     s\<lparr>scanStatus := st,
       startedAt := (if st = RUNNING then Some now else startedAt s),
       completedAt := (if st = COMPLETED \<or> st = FAILED then Some now else completedAt s),
       scanError := (case err of
                       None \<Rightarrow> scanError s
                     | Some e \<Rightarrow> if e = [] then scanError s else Some e)\<rparr>"

definition updateRows :: "Database \<Rightarrow> string \<Rightarrow> ScanStatus \<Rightarrow> string option \<Rightarrow> int \<Rightarrow> Database" where
  "updateRows db ident st err now =
     db\<lparr>scans := map (\<lambda>s. if scanId s = ident then setStatus st err now s else s) (scans db),
        statusWrites := statusWrites db @
            map (\<lambda>s. (ident, st)) (filter (\<lambda>s. scanId s = ident) (scans db))\<rparr>"

text \<open>
  \<open>Database.updateScanStatus\<close> of the API. It throws (\<open>None\<close> here) when the
  query fails, that is on a database error that outlasts the retries of \<open>withRetry\<close>
  (the parameter \<open>queryThrows\<close>: the query failed without taking effect), and when no
  row matched.
\<close>

definition updateScanStatus ::
  "bool \<Rightarrow> Database \<Rightarrow> string \<Rightarrow> ScanStatus \<Rightarrow> string option \<Rightarrow> int \<Rightarrow> Database option" where
  "updateScanStatus queryThrows db ident st err now =
     (if queryThrows then None
      else if filter (\<lambda>s. scanId s = ident) (scans db) = [] then None
      else Some (updateRows db ident st err now))"

text \<open>
  The worker's private \<open>updateScanStatus\<close> runs the same UPDATE on a connection of its
  own; it throws when connecting or the query fails, and does not look at the row count.
\<close>

definition worker_updateScanStatus ::
  "bool \<Rightarrow> Database \<Rightarrow> string \<Rightarrow> ScanStatus \<Rightarrow> string option \<Rightarrow> int \<Rightarrow> Database option" where
  "worker_updateScanStatus queryThrows db ident st err now =
     (if queryThrows then None else Some (updateRows db ident st err now))"

section \<open>The scan queue as the API reads it (api/src/queue.ts)\<close>

record TaskResult =
  success :: bool

text \<open>
  What \<open>getScanJobStatus\<close> reads of a queue job: its id, its state, its progress
  (\<open>None\<close> when \<^verbatim>\<open>job.progress()\<close> is not a number), its return value and its
  failure reason. \<open>deadLetterQueue\<close> is the list that
  \<^verbatim>\<open>deadLetterQueue.getJobs(['completed', 'failed'], 0, 100)\<close> returns.
\<close>

record BullJob =
  jobId :: string
  jobState :: string
  jobProgress :: "nat option"
  returnvalue :: "TaskResult option"
  failedReason :: "string option"

record DeadLetterJob =
  dlScanId :: string
  dlError :: "string option"

record TaskQueue =
  scanQueue :: "BullJob list"
  deadLetterQueue :: "DeadLetterJob list"

record JobStatus =
  jsStatus :: string
  jsProgress :: nat
  jsResult :: "TaskResult option"
  jsError :: "string option"

definition getScanJobStatus :: "TaskQueue \<Rightarrow> string \<Rightarrow> JobStatus option" where
  "getScanJobStatus q ident =
     (case find (\<lambda>j. jobId j = ident) (scanQueue q) of
        None \<Rightarrow>
          (case find (\<lambda>j. dlScanId j = ident) (deadLetterQueue q) of
             Some deadJob \<Rightarrow>
               Some \<lparr>jsStatus = ''dead-letter'', jsProgress = 100, jsResult = None,
                     jsError = dlError deadJob\<rparr>
           | None \<Rightarrow> None)
      | Some job \<Rightarrow>
          Some \<lparr>jsStatus = jobState job,
                jsProgress = (case jobProgress job of None \<Rightarrow> 0 | Some p \<Rightarrow> p),
                jsResult = (if jobState job = ''completed'' then returnvalue job else None),
                jsError = (if jobState job = ''failed'' then failedReason job else None)\<rparr>)"

text \<open>
  \<open>addScanJob\<close>: the job id is the scan id; the queue keeps the existing job when the
  id is already there. A new job with no delay starts in state waiting.
\<close>

definition addScanJob :: "TaskQueue \<Rightarrow> string \<Rightarrow> TaskQueue" where
  "addScanJob q ident =
     (case find (\<lambda>j. jobId j = ident) (scanQueue q) of
        Some _ \<Rightarrow> q
      | None \<Rightarrow>
          q\<lparr>scanQueue := scanQueue q @
               [\<lparr>jobId = ident, jobState = ''waiting'', jobProgress = Some 0,
                 returnvalue = None, failedReason = None\<rparr>]\<rparr>)"

section \<open>POST /api/scans (api/src/routes/scans.ts, createScan)\<close>

datatype CreateResponse =
    InvalidRequestParameters
  | DisallowedTargetUrl UrlError
  | TooManyScans int
  | ScanCreated string
  | FailedToCreateScan

text \<open>
  The state the handler works on, and the calls of the handler that may throw: the lookup
  of the most recent scan, the insert of the new row and the enqueueing of the job.
\<close>

record ApiState =
  database :: Database
  taskQueue :: TaskQueue

record Faults =
  lookupThrows :: bool
  insertThrows :: bool
  enqueueThrows :: bool

text \<open>
  \<^verbatim>\<open>parseInt(process.env.SCAN_URL_COOLDOWN_SECONDS || '30', 10) || 30\<close>: an unset
  or empty variable, an unparsable value and 0 all give 30.
\<close>

definition cooldownSeconds :: "string option \<Rightarrow> int" where
  "cooldownSeconds env =
     (let raw = (case env of None \<Rightarrow> ''30'' | Some v \<Rightarrow> if v = [] then ''30'' else v)
      in case parseInt raw of
           None \<Rightarrow> 30
         | Some n \<Rightarrow> if n = 0 then 30 else n)"

text \<open>
  The cooldown block: \<open>Some retryAfter\<close> when the handler answers 429, \<open>None\<close> when
  it goes on (no cooldown configured, no earlier scan, the earlier scan old enough, or the
  lookup threw and the handler logs and continues).
\<close>

definition cooldownCheck :: "Faults \<Rightarrow> string option \<Rightarrow> int \<Rightarrow> Database \<Rightarrow> string \<Rightarrow> int option" where
  "cooldownCheck faults env now db u =
     (let cooldown = cooldownSeconds env
      in if cooldown > 0 then
           (if lookupThrows faults then None
            else (case getRecentScansByUrl db u 1 of
                    [] \<Rightarrow> None
                  | latest # _ \<Rightarrow>
                      (let diffSeconds = real_of_int (now - createdAt latest) / 1000
                       in if diffSeconds < real_of_int cooldown
                          then Some \<lceil>real_of_int cooldown - diffSeconds\<rceil>
                          else None)))
         else None)"

text \<open>
  The handler. \<open>body\<close> is the result of \<open>ScanRequestSchema.safeParse\<close> (the url of
  a valid request), \<open>now\<close> the clock and \<open>newId\<close> the fresh uuid.
\<close>

definition createScan ::
  "Platform \<Rightarrow> Faults \<Rightarrow> string option \<Rightarrow> int \<Rightarrow> string \<Rightarrow> string option \<Rightarrow> ApiState
     \<Rightarrow> CreateResponse \<times> ApiState" where
  "createScan pf faults env now newId body st =
     (case body of
        None \<Rightarrow> (InvalidRequestParameters, st)
      | Some u \<Rightarrow>
          (case validateTargetUrl pf u of
             Inl err \<Rightarrow> (DisallowedTargetUrl err, st)
           | Inr _ \<Rightarrow>
               (case cooldownCheck faults env now (database st) u of
                  Some retryAfter \<Rightarrow> (TooManyScans retryAfter, st)
                | None \<Rightarrow>
                    if insertThrows faults then (FailedToCreateScan, st)
                    else (let st1 = st\<lparr>database := Database_createScan (database st) newId u now\<rparr>
                          in if enqueueThrows faults then (FailedToCreateScan, st1)
                             else (ScanCreated newId,
                                   st1\<lparr>taskQueue := addScanJob (taskQueue st1) newId\<rparr>)))))"

section \<open>GET /api/scans/:id/status (api/src/routes/scans.ts, getScanStatus)\<close>

text \<open>\<^verbatim>\<open>a || b\<close> on optional strings: \<open>a\<close> when it is a non-empty string, else \<open>b\<close>.\<close>

definition orElse :: "string option \<Rightarrow> string option \<Rightarrow> string option" where
  "orElse a b = (case a of None \<Rightarrow> b | Some x \<Rightarrow> if x = [] then b else a)"

text \<open>The status, progress, stage and error fields of the JSON answer.\<close>

record StatusBody =
  respStatus :: ScanStatus
  respProgress :: nat
  respStage :: string
  respError :: "string option"

definition overlay :: "ScanStatus \<Rightarrow> JobStatus option \<Rightarrow> ScanStatus" where
  "overlay dbStatus jobStatus =
     (case jobStatus of
        None \<Rightarrow> dbStatus
      | Some js \<Rightarrow>
          (let state = jsStatus js; result = jsResult js
           in if state = ''active'' \<or> state = ''waiting'' \<or> state = ''delayed'' then RUNNING
              else if state = ''completed'' then
                (case result of
                   None \<Rightarrow> COMPLETED
                 | Some r \<Rightarrow> if success r = False then FAILED else COMPLETED)
              else if state = ''failed'' \<or> state = ''dead-letter'' then FAILED
              else dbStatus))"

definition stageOf :: "Scan \<Rightarrow> ScanStatus \<Rightarrow> JobStatus option \<Rightarrow> nat \<Rightarrow> string" where
  "stageOf scan effectiveStatus jobStatus progress =
     (if effectiveStatus = COMPLETED then ''completed''
      else if effectiveStatus = FAILED then ''failed''
      else (case jobStatus of
              Some js \<Rightarrow>
                (let state = jsStatus js
                 in if state = ''waiting'' \<or> state = ''delayed'' then ''queued''
                    else if state = ''active'' then
                      (if progress < 10 then ''initializing''
                       else if progress < 40 then ''rendering''
                       else if progress < 70 then ''fetching_scripts''
                       else if progress < 85 then ''dispatching_analysis''
                       else if progress < 95 then ''analyzing''
                       else ''saving_results'')
                    else if state = ''completed'' then ''completed''
                    else if state = ''failed'' \<or> state = ''dead-letter'' then ''failed''
                    else ''queued'')
            | None \<Rightarrow>
                if scanStatus scan = RUNNING then ''analyzing''
                else ''queued''))"

text \<open>
  The error the write-back passes on:
  \<^verbatim>\<open>scan.error || jobStatus?.error || (result && result.success === false ? 'Worker reported failure' : undefined)\<close>.
\<close>

definition reconcileError :: "Scan \<Rightarrow> JobStatus option \<Rightarrow> string option" where
  "reconcileError scan jobStatus =
     (let result = (case jobStatus of None \<Rightarrow> None | Some js \<Rightarrow> jsResult js)
      in orElse (scanError scan)
           (orElse (case jobStatus of None \<Rightarrow> None | Some js \<Rightarrow> jsError js)
              (case result of
                 None \<Rightarrow> None
               | Some r \<Rightarrow> if success r = False then Some ''Worker reported failure'' else None)))"

text \<open>
  The handler: \<open>None\<close> is the 404 answer. It reads the row, then (only while the row is
  pending or running) awaits the queue, then issues the write-back. The handler is not
  atomic: \<open>between\<close> is what other writers, the workers, do to the database after the
  handler has read the row and before its UPDATE runs; the UPDATE has no condition on the
  status the row holds by then. \<open>updateThrows\<close> says that this UPDATE throws; the handler
  catches that, logs it and answers as if nothing had happened. The state returned is the
  database right after the handler's UPDATE or, when there was none or it threw, as the
  other writers left it.
\<close>

definition getScanStatus ::
  "int \<Rightarrow> string \<Rightarrow> bool \<Rightarrow> (Database \<Rightarrow> Database) \<Rightarrow> ApiState \<Rightarrow> StatusBody option \<times> ApiState" where
  "getScanStatus now ident updateThrows between st =
     (case getScan (database st) ident of
        None \<Rightarrow> (None, st)
      | Some scan \<Rightarrow>
          (let jobStatus =
                 (if scanStatus scan = PENDING \<or> scanStatus scan = RUNNING
                  then getScanJobStatus (taskQueue st) ident else None);
               effectiveStatus = overlay (scanStatus scan) jobStatus;
               dbAtWrite = between (database st);
               db1 =
                 (if effectiveStatus \<noteq> scanStatus scan
                       \<and> (effectiveStatus = RUNNING \<or> effectiveStatus = COMPLETED
                            \<or> effectiveStatus = FAILED)
                  then (case updateScanStatus updateThrows dbAtWrite ident effectiveStatus
                               (reconcileError scan jobStatus) now of
                          None \<Rightarrow> dbAtWrite
                        | Some written \<Rightarrow> written)
                  else dbAtWrite);
               progress0 = (case jobStatus of None \<Rightarrow> 0 | Some js \<Rightarrow> jsProgress js);
               progress =
                 (if jobStatus = None \<and> (effectiveStatus = COMPLETED \<or> effectiveStatus = FAILED)
                  then 100 else progress0);
               stage = stageOf scan effectiveStatus jobStatus progress
           in (Some \<lparr>respStatus = effectiveStatus, respProgress = progress, respStage = stage,
                     respError = orElse (scanError scan)
                                   (case jobStatus of None \<Rightarrow> None | Some js \<Rightarrow> jsError js)\<rparr>,
               st\<lparr>database := db1\<rparr>)))"

section \<open>The analysis worker (analyzer/src/worker.ts, processAnalysisTask)\<close>

text \<open>
  The task names the scan and carries the inline scripts (their content) and the external
  scripts (their src) of \<open>domAnalysis.scripts\<close>.
\<close>

record AnalysisTask =
  taskScanId :: string
  inlineScripts :: "string list"
  externalScripts :: "string list"

text \<open>
  What the detection, enrichment and scoring steps hand to the save step: the libraries,
  the findings and the global score. These steps call the pattern scanner, the library
  detector, the advisory feed and the report generators; the model takes their joint result
  as the parameter \<open>analyse\<close>, \<open>Inl\<close> with the message when one of them, or the
  saving transaction, throws.
\<close>

record AnalysisOutput =
  outLibraries :: "Library list"
  outFindings :: "Finding list"
  outRiskScore :: real

text \<open>
  The script records the two loops build: one for each inline script and one for each
  external script, numbered from 1 in the artifact path.
\<close>

fun decimal :: "nat \<Rightarrow> string" where
  "decimal n =
     (if n < 10 then [char_of (48 + n)]
      else decimal (n div 10) @ [char_of (48 + n mod 10)])"

definition artifactPathOf :: "string \<Rightarrow> string \<Rightarrow> nat \<Rightarrow> string" where
  "artifactPathOf ident kind i =
     ''scans/'' @ ident @ ''/scripts/'' @ kind @ ''-script-'' @ decimal (i + 1) @ ''.js''"

definition scriptRecords :: "AnalysisTask \<Rightarrow> Script list" where
  "scriptRecords task =
     map (\<lambda>i. \<lparr>scriptScanId = taskScanId task, sourceUrl = None, isInline = True,
                artifactPath = artifactPathOf (taskScanId task) ''inline'' i\<rparr>)
         [0 ..< length (inlineScripts task)]
     @ map (\<lambda>i. \<lparr>scriptScanId = taskScanId task, sourceUrl = Some (externalScripts task ! i),
                  isInline = False,
                  artifactPath = artifactPathOf (taskScanId task) ''external'' i\<rparr>)
           [0 ..< length (externalScripts task)]"

text \<open>
  \<open>saveEnhancedAnalysisResults\<close>: plain INSERTs of every script, library and finding,
  and the rounded global score on the scan row, in one transaction.
\<close>

definition saveEnhancedAnalysisResults ::
  "Database \<Rightarrow> string \<Rightarrow> Script list \<Rightarrow> AnalysisOutput \<Rightarrow> Database" where
  "saveEnhancedAnalysisResults db ident newScripts out =
     db\<lparr>scripts := scripts db @ newScripts,
        libraries := libraries db @ outLibraries out,
        findings := findings db @ outFindings out,
        scans := map (\<lambda>s. if scanId s = ident
                            then s\<lparr>globalRiskScore := Math_round (outRiskScore out)\<rparr> else s)
                     (scans db)\<rparr>"

text \<open>
  \<open>withRetry(operation, maxAttempts)\<close> of the worker: the operation is tried up to
  \<open>maxAttempts\<close> times, the attempts numbered from 1; the first result is returned, and
  the error is thrown on (\<open>None\<close>) when the last attempt throws too.
\<close>

fun retryFrom :: "(nat \<Rightarrow> 'a option) \<Rightarrow> nat \<Rightarrow> nat \<Rightarrow> 'a option" where
  "retryFrom operation attempt 0 = None"
| "retryFrom operation attempt (Suc remaining) =
     (case operation attempt of
        Some r \<Rightarrow> Some r
      | None \<Rightarrow> retryFrom operation (Suc attempt) remaining)"

definition withRetry :: "(nat \<Rightarrow> 'a option) \<Rightarrow> nat \<Rightarrow> 'a option" where
  "withRetry operation maxAttempts = retryFrom operation 1 maxAttempts"

text \<open>
  Which of the task's status UPDATEs throw: each attempt of the first one (running), the
  one for completed, the one for failed; and the message of the error thrown.
\<close>

record WorkerFaults =
  runningAttemptThrows :: "nat \<Rightarrow> bool"
  completedThrows :: bool
  failedThrows :: bool
  thrownMessage :: string

text \<open>
  The catch block of the task: the status is set to failed with the message. When this
  UPDATE throws as well, the task itself throws (the first component is the message then).
\<close>

definition markFailed ::
  "WorkerFaults \<Rightarrow> int \<Rightarrow> string \<Rightarrow> string \<Rightarrow> Database \<Rightarrow> string option \<times> Database" where
  "markFailed faults now ident message db =
     (case worker_updateScanStatus (failedThrows faults) db ident FAILED (Some message) now of
        None \<Rightarrow> (Some (thrownMessage faults), db)
      | Some db1 \<Rightarrow> (None, db1))"

text \<open>
  The task. Inside one try block: the status is set to running, with up to three
  attempts, whatever the row holds; then the analysis runs; on success the rows are saved
  and the status is set to completed. Whatever throws in the block, the running update
  and the completed update included, leads to the catch block.
\<close>

definition processAnalysisTask ::
  "(AnalysisTask \<Rightarrow> string + AnalysisOutput) \<Rightarrow> WorkerFaults \<Rightarrow> int \<Rightarrow> AnalysisTask \<Rightarrow> Database
     \<Rightarrow> string option \<times> Database" where
  "processAnalysisTask analyse faults now task db =
     (let ident = taskScanId task
      in case withRetry
                (\<lambda>attempt. worker_updateScanStatus (runningAttemptThrows faults attempt)
                              db ident RUNNING None now) 3 of
           None \<Rightarrow> markFailed faults now ident (thrownMessage faults) db
         | Some db1 \<Rightarrow>
             (case analyse task of
                Inl message \<Rightarrow> markFailed faults now ident message db1
              | Inr out \<Rightarrow>
                  (let db2 = saveEnhancedAnalysisResults db1 ident (scriptRecords task) out
                   in case worker_updateScanStatus (completedThrows faults) db2 ident
                             COMPLETED None now of
                        None \<Rightarrow> markFailed faults now ident (thrownMessage faults) db2
                      | Some db3 \<Rightarrow> (None, db3))))"

section \<open>The entry guard of the minimal analyzer (api/src/minimal/analyzer.ts)\<close>

text \<open>
  \<open>minimalAnalyzeAndPersist\<close> reads the scan's libraries and findings first and
  returns them when there are any and the scan object it was given is completed.
  Everything after the guard (fetching the page, detection, the inserts, the score) is the
  parameter \<open>rest\<close>.
\<close>

definition minimalAnalyzeAndPersist ::
  "(Database \<Rightarrow> Scan \<Rightarrow> Database \<times> Library list \<times> Finding list) \<Rightarrow> Database \<Rightarrow> Scan
     \<Rightarrow> Database \<times> Library list \<times> Finding list" where
  "minimalAnalyzeAndPersist rest db scan =
     (let existingLibraries = getLibrariesByScan db (scanId scan);
          existingFindings = getFindingsByScan db (scanId scan)
      in if (length existingLibraries > 0 \<or> length existingFindings > 0)
            \<and> scanStatus scan = COMPLETED
         then (db, existingLibraries, existingFindings)
         else rest db scan)"

section \<open>The vulnerability cache (api/src/database.ts)\<close>

text \<open>
  A row of \<open>vulnerability_cache\<close>; the advisories are kept by their ids. The table is
  declared with \<^verbatim>\<open>UNIQUE(package_name, version)\<close> and a nullable \<open>version\<close>;
  under that constraint two rows conflict only when both versions are present and equal
  (SQL treats two NULLs as distinct there).
\<close>

record CacheRow =
  packageName :: string
  cacheVersion :: "string option"
  cachedVulnerabilities :: "string list"
  lastUpdated :: int
  ttl :: "int option"

definition conflicts :: "string \<Rightarrow> string option \<Rightarrow> CacheRow \<Rightarrow> bool" where
  "conflicts name version row =
     (packageName row = name \<and>
      (case version of
         None \<Rightarrow> False
       | Some v \<Rightarrow> cacheVersion row = Some v))"

text \<open>
  \<^verbatim>\<open>INSERT ... ON CONFLICT (package_name, version) DO UPDATE SET ...\<close>, run at time
  \<open>now\<close>: the conflicting row is rewritten, otherwise a row is added.
\<close>

fun upsertVulnerabilityCacheEntry ::
  "CacheRow list \<Rightarrow> string \<Rightarrow> string option \<Rightarrow> string list \<Rightarrow> int \<Rightarrow> int \<Rightarrow> CacheRow list" where
  "upsertVulnerabilityCacheEntry [] name version vulns ttlSeconds now =
     [\<lparr>packageName = name, cacheVersion = version, cachedVulnerabilities = vulns,
       lastUpdated = now, ttl = Some ttlSeconds\<rparr>]"
| "upsertVulnerabilityCacheEntry (row # rows) name version vulns ttlSeconds now =
     (if conflicts name version row
      then row\<lparr>cachedVulnerabilities := vulns, lastUpdated := now, ttl := Some ttlSeconds\<rparr> # rows
      else row # upsertVulnerabilityCacheEntry rows name version vulns ttlSeconds now)"

text \<open>
  The read: \<^verbatim>\<open>WHERE package_name = $1 AND (version IS NOT DISTINCT FROM $2)\<close>, which
  does match a NULL version with a NULL argument; the first row returned decides (rows come
  in table order here). An entry is expired when \<open>now > lastUpdated + ttl * 1000\<close>.
\<close>

definition getVulnerabilityCacheEntry ::
  "CacheRow list \<Rightarrow> string \<Rightarrow> string option \<Rightarrow> int \<Rightarrow> (string list \<times> int \<times> int) option" where
  "getVulnerabilityCacheEntry table name version now =
     (case filter (\<lambda>r. packageName r = name \<and> cacheVersion r = version) table of
        [] \<Rightarrow> None
      | row # _ \<Rightarrow>
          (let ttlSeconds = (case ttl row of None \<Rightarrow> 86400 | Some t \<Rightarrow> t);
               expiresAt = lastUpdated row + ttlSeconds * 1000
           in if now > expiresAt then None
              else Some (cachedVulnerabilities row, lastUpdated row, ttlSeconds)))"

section \<open>The Set-Cookie check of the minimal analyzer (api/src/minimal/analyzer.ts)\<close>

text \<open>\<^verbatim>\<open>setCookie.split(/\r?\n/)\<close>: cut at each line feed, dropping one carriage return before it.\<close>

definition dropCR :: "string \<Rightarrow> string" where
  "dropCR s = (if s \<noteq> [] \<and> last s = CHR 0x0D then butlast s else s)"

definition splitLines :: "string \<Rightarrow> string list" where
  "splitLines s =
     (let parts = split (CHR 0x0A) s
      in map dropCR (butlast parts) @ [last parts])"

text \<open>
  \<^verbatim>\<open>/;\s*kw/i.test(s)\<close>, with a word boundary after the keyword when \<open>wb\<close> is set:
  somewhere in \<open>s\<close> a semicolon, any white space, then the keyword in any letter case.
\<close>

definition keywordAt :: "string \<Rightarrow> bool \<Rightarrow> string \<Rightarrow> bool" where
  "keywordAt kw wb s =
     (toLowerCase (take (length kw) s) = kw
      \<and> (if wb then (case drop (length kw) s of [] \<Rightarrow> True | c # _ \<Rightarrow> \<not> isWordChar c) else True))"

fun semicolonKeyword :: "string \<Rightarrow> bool \<Rightarrow> string \<Rightarrow> bool" where
  "semicolonKeyword kw wb [] = False"
| "semicolonKeyword kw wb (c # cs) =
     ((c = CHR '';'' \<and> keywordAt kw wb (dropWhile isWhiteSpace cs)) \<or> semicolonKeyword kw wb cs)"

definition isSensitive :: "string \<Rightarrow> bool" where
  "isSensitive lower =
     (testLiteral lower ''session'' \<or> testLiteral lower ''auth''
      \<or> testLiteral lower ''token'' \<or> testLiteral lower ''jwt'')"

definition sensitiveCookieFinding :: "string \<Rightarrow> string \<Rightarrow> Finding" where
  "sensitiveCookieFinding ident trimmed =
     \<lparr>findingScanId = ident, findingType = ''SECURITY_COOKIE'',
      title = ''Sensitive session/auth cookie missing security flags'',
      findingSeverity = HIGH, evidence = Some trimmed\<rparr>"

definition genericCookieFinding :: "string \<Rightarrow> string \<Rightarrow> Finding" where
  "genericCookieFinding ident trimmed =
     \<lparr>findingScanId = ident, findingType = ''SECURITY_COOKIE'',
      title = ''Cookie missing Secure/HttpOnly flags'',
      findingSeverity = MODERATE, evidence = Some trimmed\<rparr>"

text \<open>
  The loop over the raw cookies. Its state: the findings pushed so far, the two flags, and
  how many raw cookies the loop has looked at.
\<close>

record CookieLoop =
  pushed :: "Finding list"
  reportedSensitiveCookie :: bool
  reportedGenericCookie :: bool
  examined :: nat

definition cookieStep :: "string \<Rightarrow> string \<Rightarrow> CookieLoop \<Rightarrow> CookieLoop" where
  "cookieStep ident trimmed st =
     (let lower = toLowerCase trimmed;
          sensitive = isSensitive lower;
          hasSecure = semicolonKeyword ''secure'' True trimmed;
          hasHttpOnly = semicolonKeyword ''httponly'' True trimmed;
          hasSameSite = semicolonKeyword ''samesite='' False trimmed
      in if sensitive \<and> (\<not> hasSecure \<or> \<not> hasHttpOnly \<or> \<not> hasSameSite)
            \<and> \<not> reportedSensitiveCookie st
         then st\<lparr>pushed := pushed st @ [sensitiveCookieFinding ident trimmed],
                 reportedSensitiveCookie := True\<rparr>
         else if \<not> sensitive \<and> (\<not> hasSecure \<or> \<not> hasHttpOnly) \<and> \<not> reportedGenericCookie st
         then st\<lparr>pushed := pushed st @ [genericCookieFinding ident trimmed],
                 reportedGenericCookie := True\<rparr>
         else st)"

fun cookieLoop :: "string \<Rightarrow> string list \<Rightarrow> CookieLoop \<Rightarrow> CookieLoop" where
  "cookieLoop ident [] st = st"
| "cookieLoop ident (raw # rawCookies) st =
     (let trimmed = trim raw;
          st0 = st\<lparr>examined := Suc (examined st)\<rparr>
      in if trimmed = [] then cookieLoop ident rawCookies st0
         else (let st1 = cookieStep ident trimmed st0
               in if reportedSensitiveCookie st1 \<and> reportedGenericCookie st1 then st1
                  else cookieLoop ident rawCookies st1))"

text \<open>
  The whole block: nothing for an absent or empty header, else the loop over the lines,
  started with no findings and both flags unset.
\<close>

definition cookieStart :: CookieLoop where
  "cookieStart =
     \<lparr>pushed = [], reportedSensitiveCookie = False, reportedGenericCookie = False, examined = 0\<rparr>"

definition cookieCheck :: "string \<Rightarrow> string option \<Rightarrow> CookieLoop" where
  "cookieCheck ident setCookie =
     (case setCookie of
        None \<Rightarrow> cookieStart
      | Some v \<Rightarrow> if v = [] then cookieStart else cookieLoop ident (splitLines v) cookieStart)"

section \<open>What the claims say, in the specification's words\<close>

text \<open>
  The library score as the specification words it: the largest score times 10, scaled by
  confidence/100, plus 15 for each critical entry, times 1.5 with a public exploit, clamped
  to the interval from 0 to 100.
\<close>

definition spec_clamp :: "real \<Rightarrow> real" where
  "spec_clamp x = (if x < 0 then 0 else if x > 100 then 100 else x)"

definition spec_libraryRisk :: "RiskInput list \<Rightarrow> real \<Rightarrow> bool \<Rightarrow> real" where
  "spec_libraryRisk vs confidence hasPublicExploit =
     spec_clamp
       ((Max (cvssOrZero ` set vs) * 10 * (confidence / 100)
          + 15 * real (card {i. i < length vs \<and> isCriticalInput (vs ! i)}))
        * (if hasPublicExploit then 3 / 2 else 1))"

section \<open>Predicates of the statements and proofs\<close>

text \<open>Both cookie findings have been pushed.\<close>

definition bothReported :: "CookieLoop \<Rightarrow> bool" where
  "bothReported st = (reportedSensitiveCookie st \<and> reportedGenericCookie st)"

text \<open>
  The invariant of the cookie loop: there is one high finding exactly when the sensitive
  flag is set, one moderate finding exactly when the generic flag is set, and every
  finding pushed is one of these two.
\<close>

definition isCookieFinding :: "Finding \<Rightarrow> bool" where
  "isCookieFinding f =
     (findingType f = ''SECURITY_COOKIE''
      \<and> ((findingSeverity f = HIGH
            \<and> title f = ''Sensitive session/auth cookie missing security flags'')
         \<or> (findingSeverity f = MODERATE \<and> title f = ''Cookie missing Secure/HttpOnly flags'')))"

definition cookieInv :: "CookieLoop \<Rightarrow> bool" where
  "cookieInv st =
     (length (filter (\<lambda>f. findingSeverity f = HIGH) (pushed st))
        = (if reportedSensitiveCookie st then 1 else 0)
      \<and> length (filter (\<lambda>f. findingSeverity f = MODERATE) (pushed st))
        = (if reportedGenericCookie st then 1 else 0)
      \<and> list_all isCookieFinding (pushed st))"

text \<open>
  What the status handler sees of the queue: the job status while the row is pending or
  running, nothing otherwise.
\<close>

definition queueView :: "Scan \<Rightarrow> ApiState \<Rightarrow> string \<Rightarrow> JobStatus option" where
  "queueView scan st ident =
     (if scanStatus scan = PENDING \<or> scanStatus scan = RUNNING
      then getScanJobStatus (taskQueue st) ident else None)"

text \<open>
  The lifecycle order of the specification: pending, then running, then completed or
  failed. A sequence of status values never moves backwards when its ranks never fall.
\<close>

fun rank :: "ScanStatus \<Rightarrow> nat" where
  "rank PENDING = 0"
| "rank RUNNING = 1"
| "rank COMPLETED = 2"
| "rank FAILED = 2"

definition neverBackwards :: "ScanStatus list \<Rightarrow> bool" where
  "neverBackwards ws = sorted (map rank ws)"

text \<open>The status values written to the row of one scan, in order.\<close>

definition statusHistory :: "Database \<Rightarrow> string \<Rightarrow> ScanStatus list" where
  "statusHistory db ident = map snd (filter (\<lambda>w. fst w = ident) (statusWrites db))"

text \<open>The rows of \<open>scans\<close> with a given id.\<close>

definition scanRows :: "Database \<Rightarrow> string \<Rightarrow> Scan list" where
  "scanRows db ident = filter (\<lambda>s. scanId s = ident) (scans db)"

text \<open>The status the analysis task writes last: completed on success, failed on a throw.\<close>

definition finalStatus :: "string + AnalysisOutput \<Rightarrow> ScanStatus" where
  "finalStatus r = (case r of Inl _ \<Rightarrow> FAILED | Inr _ \<Rightarrow> COMPLETED)"

text \<open>The status values written between two states of the database, in order.\<close>

definition newWrites :: "Database \<Rightarrow> Database \<Rightarrow> ScanStatus list" where
  "newWrites before after = map snd (drop (length (statusWrites before)) (statusWrites after))"

text \<open>
  The status values one run of the analysis task writes, from which of its UPDATEs throw
  (the one to running throws when all of its three attempts do) and from the result of the
  analysis.
\<close>

definition runningThrows :: "WorkerFaults \<Rightarrow> bool" where
  "runningThrows faults =
     (runningAttemptThrows faults 1 \<and> runningAttemptThrows faults 2
      \<and> runningAttemptThrows faults 3)"

definition workerWrites :: "WorkerFaults \<Rightarrow> string + AnalysisOutput \<Rightarrow> ScanStatus list" where
  "workerWrites faults r =
     (let failure = (if failedThrows faults then [] else [FAILED])
      in if runningThrows faults then failure
         else RUNNING # (case r of
                           Inl _ \<Rightarrow> failure
                         | Inr _ \<Rightarrow> if completedThrows faults then failure else [COMPLETED]))"

section \<open>Example states\<close>

text \<open>
  A scan that a worker marked failed after one attempt, while its queue job waits, delayed,
  for the next attempt.
\<close>

definition emptyDatabase :: Database where
  "emptyDatabase = \<lparr>scans = [], scripts = [], libraries = [], findings = [], statusWrites = []\<rparr>"

definition failedScan :: Scan where
  "failedScan =
     \<lparr>scanId = ''s1'', scanUrl = ''https://example.com/'', scanStatus = FAILED, createdAt = 1000,
      startedAt = Some 2000, completedAt = Some 3000, globalRiskScore = 0,
      scanError = Some ''Analysis job timeout''\<rparr>"

definition retryingState :: ApiState where
  "retryingState =
     \<lparr>database = emptyDatabase\<lparr>scans := [failedScan]\<rparr>,
      taskQueue = \<lparr>scanQueue = [\<lparr>jobId = ''s1'', jobState = ''delayed'', jobProgress = Some 40,
                                   returnvalue = None, failedReason = None\<rparr>],
                   deadLetterQueue = []\<rparr>\<rparr>"

text \<open>
  A running scan whose queue job has completed with a result that reports failure.
\<close>

definition runningScan :: Scan where
  "runningScan =
     \<lparr>scanId = ''s2'', scanUrl = ''https://example.org/'', scanStatus = RUNNING, createdAt = 1000,
      startedAt = Some 2000, completedAt = None, globalRiskScore = 0, scanError = None\<rparr>"

definition workerFailedState :: ApiState where
  "workerFailedState =
     \<lparr>database = emptyDatabase\<lparr>scans := [runningScan]\<rparr>,
      taskQueue = \<lparr>scanQueue = [\<lparr>jobId = ''s2'', jobState = ''completed'', jobProgress = Some 100,
                                   returnvalue = Some \<lparr>success = False\<rparr>, failedReason = None\<rparr>],
                   deadLetterQueue = []\<rparr>\<rparr>"

text \<open>
  A scan that has been analysed: its row is completed and it owns one script, one library
  and one finding. The task for it, with its one inline script, as the queue would deliver
  it a second time; an analysis that detects nothing and does not throw; and a remainder
  of the minimal analyzer that would insert one more finding.
\<close>

definition completedScan :: Scan where
  "completedScan =
     \<lparr>scanId = ''s3'', scanUrl = ''https://example.net/'', scanStatus = COMPLETED,
      createdAt = 1000, startedAt = Some 2000, completedAt = Some 3000, globalRiskScore = 40,
      scanError = None\<rparr>"

definition summaryFinding :: Finding where
  "summaryFinding =
     \<lparr>findingScanId = ''s3'', findingType = ''INFO'', title = ''Minimal script analysis completed'',
      findingSeverity = LOW, evidence = None\<rparr>"

definition completedDatabase :: Database where
  "completedDatabase =
     \<lparr>scans = [completedScan],
      scripts = [\<lparr>scriptScanId = ''s3'', sourceUrl = None, isInline = True,
                  artifactPath = ''scans/s3/scripts/inline-script-1.js''\<rparr>],
      libraries = [\<lparr>libScanId = ''s3'', libName = ''jquery'', detectedVersion = Some ''1.12.4'',
                    riskScore = Some 40, libConfidence = Some 80\<rparr>],
      findings = [summaryFinding],
      statusWrites = [(''s3'', PENDING), (''s3'', RUNNING), (''s3'', COMPLETED)]\<rparr>"

definition redeliveredTask :: AnalysisTask where
  "redeliveredTask = \<lparr>taskScanId = ''s3'', inlineScripts = [''var a = 1;''], externalScripts = []\<rparr>"

definition noDetections :: "AnalysisTask \<Rightarrow> string + AnalysisOutput" where
  "noDetections task = Inr \<lparr>outLibraries = [], outFindings = [], outRiskScore = 0\<rparr>"

definition noWorkerFaults :: WorkerFaults where
  "noWorkerFaults =
     \<lparr>runningAttemptThrows = (\<lambda>attempt. False), completedThrows = False, failedThrows = False,
      thrownMessage = ''connection terminated''\<rparr>"

text \<open>
  A worker whose update to running throws on all three attempts; an analysis that throws;
  a pending scan whose queue job is active; and what a worker does to the database when it
  runs that scan's task, with the failing analysis, to the end.
\<close>

definition runningUpdateFails :: WorkerFaults where
  "runningUpdateFails =
     \<lparr>runningAttemptThrows = (\<lambda>attempt. True), completedThrows = False, failedThrows = False,
      thrownMessage = ''connection terminated''\<rparr>"

definition failingAnalysis :: "AnalysisTask \<Rightarrow> string + AnalysisOutput" where
  "failingAnalysis task = Inl ''Could not read artifact''"

definition pendingScan :: Scan where
  "pendingScan =
     \<lparr>scanId = ''s4'', scanUrl = ''https://example.edu/'', scanStatus = PENDING, createdAt = 1000,
      startedAt = None, completedAt = None, globalRiskScore = 0, scanError = None\<rparr>"

definition pendingState :: ApiState where
  "pendingState =
     \<lparr>database = emptyDatabase\<lparr>scans := [pendingScan], statusWrites := [(''s4'', PENDING)]\<rparr>,
      taskQueue = \<lparr>scanQueue = [\<lparr>jobId = ''s4'', jobState = ''active'', jobProgress = Some 85,
                                   returnvalue = None, failedReason = None\<rparr>],
                   deadLetterQueue = []\<rparr>\<rparr>"

definition failingRun :: "Database \<Rightarrow> Database" where
  "failingRun db =
     snd (processAnalysisTask failingAnalysis noWorkerFaults 8000
            \<lparr>taskScanId = ''s4'', inlineScripts = [], externalScripts = []\<rparr> db)"

definition insertSummary :: "Database \<Rightarrow> Scan \<Rightarrow> Database \<times> Library list \<times> Finding list" where
  "insertSummary db scan =
     (db\<lparr>findings := findings db @ [summaryFinding]\<rparr>, [], [summaryFinding])"

text \<open>
  An API with no scans and no jobs; a platform on which every URL parses to the public
  host example.com, resolving to a public IPv4 address; and one on which the URL's host
  resolves to the IPv6 address fe90::1, which lies in fe80::/10.
\<close>

definition emptyState :: ApiState where
  "emptyState = \<lparr>database = emptyDatabase, taskQueue = \<lparr>scanQueue = [], deadLetterQueue = []\<rparr>\<rparr>"

definition noFaults :: Faults where
  "noFaults = \<lparr>lookupThrows = False, insertThrows = False, enqueueThrows = False\<rparr>"



definition linkLocalPlatform :: Platform where
  "linkLocalPlatform =
     \<lparr>newURL = (\<lambda>u. Some \<lparr>protocol = ''http:'', hostname = ''printer.corp.example''\<rparr>),
      isIP = (\<lambda>a. if a = ''fe90::1'' then 6 else 0),
      lookup = (\<lambda>h. Inr [''fe90::1''])\<rparr>"


text \<open>
  A cache table after two writes for the package lodash with no version, ten seconds
  apart, each with a time to live of one second; and the same two writes with a version.
\<close>

definition unversionedTwice :: "CacheRow list" where
  "unversionedTwice =
     upsertVulnerabilityCacheEntry
       (upsertVulnerabilityCacheEntry [] ''lodash'' None [''GHSA-first''] 1 0)
       ''lodash'' None [''GHSA-second''] 1 10000"

definition versionedTwice :: "CacheRow list" where
  "versionedTwice =
     upsertVulnerabilityCacheEntry
       (upsertVulnerabilityCacheEntry [] ''lodash'' (Some ''4.17.20'') [''GHSA-first''] 1 0)
       ''lodash'' (Some ''4.17.20'') [''GHSA-second''] 1 10000"

section \<open>Lemmas on the risk calculator\<close>

lemma Math_max_Max: "Math_max x xs = Max (set (x # xs))"
proof (induction xs arbitrary: x)
  case Nil
  show ?case by simp
next
  case (Cons y ys)
  have "Max (insert x (insert y (set ys))) = Max (insert (max x y) (set ys))"
  proof (cases "set ys = {}")
    case True
    then show ?thesis by (simp add: max.commute)
  next
    case False
    then show ?thesis by (simp add: max.assoc)
  qed
  with Cons show ?case by simp
qed

lemma Math_max_snoc: "Math_max x (xs @ [y]) = max (Math_max x xs) y"
  by (induction xs arbitrary: x) auto

lemma card_filter_index:
  "card {i. i < length xs \<and> P (xs ! i)} = length (filter P xs)"
  using length_filter_conv_card [of P xs] by simp

lemma spec_clamp_min_max: "spec_clamp x = min 100 (max 0 x)"
  by (simp add: spec_clamp_def min_def max_def)

lemma calculateLibraryRisk_nonneg: "0 \<le> calculateLibraryRisk vs c e"
  by (simp add: calculateLibraryRisk_def Let_def split: list.splits)

lemma calculateLibraryRisk_Cons:
  "calculateLibraryRisk (w # ws) c e =
     min 100 (max 0 ((Math_max (cvssOrZero w) (map cvssOrZero ws) * 10 * (c / 100)
        + real (length (filter isCriticalInput (w # ws))) * 15) * (if e then 3 / 2 else 1)))"
  by (simp add: calculateLibraryRisk_def Let_def)

lemma calculateLibraryRisk_append_mono:
  assumes c: "0 \<le> c"
  shows "calculateLibraryRisk vs c e \<le> calculateLibraryRisk (vs @ [v]) c e"
proof (cases vs)
  case Nil
  then show ?thesis
    using calculateLibraryRisk_nonneg [of "[v]" c e] by (simp add: calculateLibraryRisk_def)
next
  case (Cons w ws)
  let ?m = "Math_max (cvssOrZero w) (map cvssOrZero ws)"
  let ?m' = "Math_max (cvssOrZero w) (map cvssOrZero (ws @ [v]))"
  let ?k = "real (length (filter isCriticalInput (w # ws)))"
  let ?k' = "real (length (filter isCriticalInput (w # ws @ [v])))"
  have mm: "?m \<le> ?m'" by (simp add: Math_max_snoc)
  have kk: "?k \<le> ?k'" by simp
  have "?m * 10 * (c / 100) \<le> ?m' * 10 * (c / 100)"
    using mm c by (intro mult_right_mono) auto
  then have "?m * 10 * (c / 100) + ?k * 15 \<le> ?m' * 10 * (c / 100) + ?k' * 15"
    using kk by linarith
  then have scaled: "(?m * 10 * (c / 100) + ?k * 15) * (if e then 3 / 2 else 1)
      \<le> (?m' * 10 * (c / 100) + ?k' * 15) * (if e then 3 / 2 else 1)"
    by (intro mult_right_mono) auto
  have "calculateLibraryRisk (w # ws) c e \<le> calculateLibraryRisk (w # (ws @ [v])) c e"
    unfolding calculateLibraryRisk_Cons using scaled
    by (intro min.mono max.mono order_refl) simp
  then show ?thesis by (simp add: Cons)
qed

lemma calculateGlobalRisk_critical_mono:
  "n \<le> m \<Longrightarrow> calculateGlobalRisk rs n \<le> calculateGlobalRisk rs m"
  by (cases rs) (auto simp: calculateGlobalRisk_def Let_def min_def max_def)

section \<open>The risk calculator: claims C5, C6 and C10\<close>

text \<open>
  C5. For a vulnerability list that is not empty, \<open>calculateLibraryRisk\<close> is the largest
  score times 10, scaled by confidence/100, plus 15 for each critical entry, times 1.5 when
  there is a public exploit, clamped to the interval from 0 to 100. One advisory with score
  9.8 at confidence 80 and no public exploit gives 93.4, which the analyzer rounds to the
  library score 93.
\<close>

theorem C5_calculateLibraryRisk_formula:
  "(vs \<noteq> [] \<longrightarrow> calculateLibraryRisk vs confidence hasPublicExploit
                     = spec_libraryRisk vs confidence hasPublicExploit)
   \<and> calculateLibraryRisk [riskInputOf (Some (98 / 10))] 80 False = 934 / 10
   \<and> enrichedRiskScore [Some (98 / 10)] (Some 80) = Some 93"
proof (intro conjI impI)
  assume "vs \<noteq> []"
  then obtain v ws where vs: "vs = v # ws" by (cases vs) auto
  have m: "Math_max (cvssOrZero v) (map cvssOrZero ws) = Max (cvssOrZero ` set vs)"
    by (simp add: Math_max_Max vs)
  show "calculateLibraryRisk vs confidence hasPublicExploit
          = spec_libraryRisk vs confidence hasPublicExploit"
    unfolding spec_libraryRisk_def spec_clamp_min_max card_filter_index m [symmetric]
    by (simp add: calculateLibraryRisk_def vs Let_def algebra_simps)
next
  show "calculateLibraryRisk [riskInputOf (Some (98 / 10))] 80 False = 934 / 10"
    by (simp add: riskInputOf_def sevStr_def calculateLibraryRisk_def cvssOrZero_def
        isCriticalInput_def)
next
  show "enrichedRiskScore [Some (98 / 10)] (Some 80) = Some 93"
    by (simp add: enrichedRiskScore_def riskInputOf_def sevStr_def calculateLibraryRisk_def
        cvssOrZero_def isCriticalInput_def Math_round_def)
qed

theorem C5_calculateLibraryRisk_formula_witness:
  "[riskInputOf (Some 5), riskInputOf None] \<noteq> []
   \<and> calculateLibraryRisk [riskInputOf (Some 5), riskInputOf None] 60 True
       = spec_libraryRisk [riskInputOf (Some 5), riskInputOf None] 60 True
   \<and> calculateLibraryRisk [riskInputOf (Some 5), riskInputOf None] 60 True = 45"
proof -
  have ne: "[riskInputOf (Some 5), riskInputOf None] \<noteq> []" by simp
  have v: "calculateLibraryRisk [riskInputOf (Some 5), riskInputOf None] 60 True = 45"
    by (simp add: riskInputOf_def sevStr_def calculateLibraryRisk_def cvssOrZero_def
        isCriticalInput_def)
  show ?thesis
    using C5_calculateLibraryRisk_formula
      [of "[riskInputOf (Some 5), riskInputOf None]" 60 True] ne v
    by simp
qed

text \<open>
  C6. For a library (its confidence is not negative), appending a vulnerability to its
  list never lowers \<open>calculateLibraryRisk\<close>, whatever the exploit flag; and for a
  fixed list of library risks, a larger count of critical findings never lowers
  \<open>calculateGlobalRisk\<close>.
\<close>

theorem C6_risk_monotone:
  "(0 \<le> confidence \<longrightarrow>
      calculateLibraryRisk vs confidence hasPublicExploit
        \<le> calculateLibraryRisk (vs @ [v]) confidence hasPublicExploit)
   \<and> (n \<le> m \<longrightarrow> calculateGlobalRisk libraryRisks (real n)
                     \<le> calculateGlobalRisk libraryRisks (real m))"
  using calculateLibraryRisk_append_mono [of confidence vs hasPublicExploit v]
    calculateGlobalRisk_critical_mono [of "real n" "real m" libraryRisks]
  by simp

theorem C6_risk_monotone_witness:
  "(0::real) \<le> 80
   \<and> calculateLibraryRisk [riskInputOf (Some 5)] 80 False = 40
   \<and> calculateLibraryRisk ([riskInputOf (Some 5)] @ [riskInputOf (Some (98 / 10))]) 80 False
       = 934 / 10
   \<and> calculateLibraryRisk [riskInputOf (Some 5)] 80 False
       \<le> calculateLibraryRisk ([riskInputOf (Some 5)] @ [riskInputOf (Some (98 / 10))]) 80 False
   \<and> (1::nat) \<le> 2
   \<and> calculateGlobalRisk [40, 75] (real (1::nat)) = 6225 / 100
   \<and> calculateGlobalRisk [40, 75] (real (2::nat)) = 7225 / 100
   \<and> calculateGlobalRisk [40, 75] (real (1::nat)) \<le> calculateGlobalRisk [40, 75] (real (2::nat))"
proof -
  have a: "calculateLibraryRisk [riskInputOf (Some 5)] 80 False = 40"
    by (simp add: riskInputOf_def sevStr_def calculateLibraryRisk_def cvssOrZero_def
        isCriticalInput_def)
  have b: "calculateLibraryRisk ([riskInputOf (Some 5)] @ [riskInputOf (Some (98 / 10))]) 80 False
             = 934 / 10"
    by (simp add: riskInputOf_def sevStr_def calculateLibraryRisk_def cvssOrZero_def
        isCriticalInput_def)
  have c: "calculateGlobalRisk [40, 75] (real (1::nat)) = 6225 / 100"
    by (simp add: calculateGlobalRisk_def)
  have d: "calculateGlobalRisk [40, 75] (real (2::nat)) = 7225 / 100"
    by (simp add: calculateGlobalRisk_def)
  show ?thesis
    using C6_risk_monotone [of 80 "[riskInputOf (Some 5)]" False "riskInputOf (Some (98 / 10))"
        1 2 "[40, 75]"] a b c d
    by simp
qed

text \<open>
  C10. \<open>calculateLibraryRisk\<close> is 0 on the empty vulnerability list, whatever the
  confidence and the exploit flag; \<open>calculateGlobalRisk\<close> is 0 on the empty list of
  library risks, whatever the count of critical findings; and the minimal analyzer stores
  the global risk 0 for a scan with no libraries, whatever its findings.
\<close>

theorem C10_empty_lists_score_zero:
  "calculateLibraryRisk [] confidence hasPublicExploit = 0
   \<and> calculateGlobalRisk [] criticalFindings = 0
   \<and> persistedGlobalRisk [] fs = 0"
  by (simp add: calculateLibraryRisk_def calculateGlobalRisk_def persistedGlobalRisk_def)

section \<open>The cookie check: claim C9\<close>

lemma cookieStep_inv: "cookieInv st \<Longrightarrow> cookieInv (cookieStep ident t st)"
  by (auto simp: cookieInv_def cookieStep_def Let_def sensitiveCookieFinding_def
      genericCookieFinding_def isCookieFinding_def split: if_splits)

lemma cookieInv_examined: "cookieInv (st\<lparr>examined := n\<rparr>) = cookieInv st"
  by (simp add: cookieInv_def)

lemma cookieLoop_inv: "cookieInv st \<Longrightarrow> cookieInv (cookieLoop ident raws st)"
proof (induction raws arbitrary: st)
  case Nil
  then show ?case by simp
next
  case (Cons raw raws)
  let ?st0 = "st\<lparr>examined := Suc (examined st)\<rparr>"
  have i0: "cookieInv ?st0" using Cons.prems by (simp add: cookieInv_examined)
  have i1: "cookieInv (cookieStep ident (trim raw) ?st0)" by (rule cookieStep_inv [OF i0])
  show ?case using Cons.IH [OF i0] Cons.IH [OF i1] i1 by (simp add: Let_def)
qed

lemma cookieStart_inv: "cookieInv cookieStart"
  by (simp add: cookieInv_def cookieStart_def)

lemma cookieCheck_inv: "cookieInv (cookieCheck ident setCookie)"
  by (simp add: cookieCheck_def cookieStart_inv cookieLoop_inv split: option.splits)

text \<open>The three ways one iteration of the loop goes on.\<close>

lemma cookieLoop_Cons_blank:
  "trim raw = [] \<Longrightarrow>
   cookieLoop ident (raw # raws) st = cookieLoop ident raws (st\<lparr>examined := Suc (examined st)\<rparr>)"
  by (simp add: Let_def)

lemma cookieLoop_Cons_break:
  "trim raw \<noteq> [] \<Longrightarrow>
   bothReported (cookieStep ident (trim raw) (st\<lparr>examined := Suc (examined st)\<rparr>)) \<Longrightarrow>
   cookieLoop ident (raw # raws) st
     = cookieStep ident (trim raw) (st\<lparr>examined := Suc (examined st)\<rparr>)"
  by (simp add: Let_def bothReported_def)

lemma cookieLoop_Cons_continue:
  "trim raw \<noteq> [] \<Longrightarrow>
   \<not> bothReported (cookieStep ident (trim raw) (st\<lparr>examined := Suc (examined st)\<rparr>)) \<Longrightarrow>
   cookieLoop ident (raw # raws) st
     = cookieLoop ident raws (cookieStep ident (trim raw) (st\<lparr>examined := Suc (examined st)\<rparr>))"
  by (auto simp: Let_def bothReported_def)

lemma cookieLoop_stops:
  "\<not> bothReported st \<Longrightarrow> bothReported (cookieLoop ident xs st) \<Longrightarrow>
   cookieLoop ident (xs @ ys) st = cookieLoop ident xs st"
proof (induction xs arbitrary: st)
  case Nil
  then show ?case by simp
next
  case (Cons raw raws)
  let ?st0 = "st\<lparr>examined := Suc (examined st)\<rparr>"
  let ?st1 = "cookieStep ident (trim raw) ?st0"
  have n0: "\<not> bothReported ?st0" using Cons.prems(1) by (simp add: bothReported_def)
  show ?case
  proof (cases "trim raw = []")
    case True
    have "bothReported (cookieLoop ident raws ?st0)"
      using Cons.prems(2) by (simp only: cookieLoop_Cons_blank [OF True])
    from Cons.IH [OF n0 this] show ?thesis
      by (simp only: append_Cons cookieLoop_Cons_blank [OF True])
  next
    case False
    show ?thesis
    proof (cases "bothReported ?st1")
      case True
      show ?thesis
        by (simp only: append_Cons cookieLoop_Cons_break [OF False True])
    next
      case nb: False
      have "bothReported (cookieLoop ident raws ?st1)"
        using Cons.prems(2) by (simp only: cookieLoop_Cons_continue [OF False nb])
      from Cons.IH [OF nb this] show ?thesis
        by (simp only: append_Cons cookieLoop_Cons_continue [OF False nb])
    qed
  qed
qed

text \<open>
  C9. For every Set-Cookie header value, of one line or several, the check pushes at most
  one high finding (the sensitive-cookie one) and at most one moderate finding (the
  generic-cookie one) and nothing else; and once both have been pushed the loop is over:
  whatever cookies follow, the findings and the number of cookies looked at stay the same.
\<close>

theorem C9_cookie_findings_at_most_one_each:
  "length (filter (\<lambda>f. findingSeverity f = HIGH) (pushed (cookieCheck ident setCookie))) \<le> 1
   \<and> length (filter (\<lambda>f. findingSeverity f = MODERATE) (pushed (cookieCheck ident setCookie))) \<le> 1
   \<and> list_all isCookieFinding (pushed (cookieCheck ident setCookie))
   \<and> (bothReported (cookieLoop ident rawCookies cookieStart) \<longrightarrow>
        cookieLoop ident (rawCookies @ later) cookieStart
          = cookieLoop ident rawCookies cookieStart)"
proof -
  have nb: "\<not> bothReported cookieStart" by (simp add: bothReported_def cookieStart_def)
  show ?thesis
    using cookieCheck_inv [of ident setCookie]
      cookieLoop_stops [OF nb, of ident rawCookies later]
    by (simp add: cookieInv_def)
qed

theorem C9_cookie_findings_witness:
  "splitLines (''sessionid=1; Secure'' @ [CHR 0x0D, CHR 0x0A] @ ''lang=en'' @ [CHR 0x0A] @ ''theme=dark'')
     = [''sessionid=1; Secure'', ''lang=en''] @ [''theme=dark'']
   \<and> bothReported (cookieLoop ''s1'' [''sessionid=1; Secure'', ''lang=en''] cookieStart)
   \<and> cookieLoop ''s1'' ([''sessionid=1; Secure'', ''lang=en''] @ [''theme=dark'']) cookieStart
       = cookieLoop ''s1'' [''sessionid=1; Secure'', ''lang=en''] cookieStart
   \<and> examined (cookieLoop ''s1'' ([''sessionid=1; Secure'', ''lang=en''] @ [''theme=dark''])
         cookieStart) = 2
   \<and> map findingSeverity
         (pushed (cookieLoop ''s1'' ([''sessionid=1; Secure'', ''lang=en''] @ [''theme=dark''])
            cookieStart)) = [HIGH, MODERATE]"
proof -
  have lines: "splitLines (''sessionid=1; Secure'' @ [CHR 0x0D, CHR 0x0A] @ ''lang=en''
                  @ [CHR 0x0A] @ ''theme=dark'')
                = [''sessionid=1; Secure'', ''lang=en''] @ [''theme=dark'']"
    by code_simp
  have b: "bothReported (cookieLoop ''s1'' [''sessionid=1; Secure'', ''lang=en''] cookieStart)"
    by code_simp
  have e: "examined (cookieLoop ''s1'' [''sessionid=1; Secure'', ''lang=en''] cookieStart) = 2"
    by code_simp
  have p: "map findingSeverity
             (pushed (cookieLoop ''s1'' [''sessionid=1; Secure'', ''lang=en''] cookieStart))
           = [HIGH, MODERATE]"
    by code_simp
  have stop: "cookieLoop ''s1'' ([''sessionid=1; Secure'', ''lang=en''] @ [''theme=dark''])
                cookieStart
              = cookieLoop ''s1'' [''sessionid=1; Secure'', ''lang=en''] cookieStart"
    using C9_cookie_findings_at_most_one_each
      [of "''s1''" None "[''sessionid=1; Secure'', ''lang=en'']" "[''theme=dark'']"] b
    by blast
  show ?thesis
    using lines b e p stop by (simp only: simp_thms)
qed

section \<open>The status endpoint: claim C4\<close>









lemma overlay_not_PENDING:
  "overlay s js \<noteq> s \<Longrightarrow> overlay s js \<noteq> PENDING"
  by (auto simp: overlay_def Let_def split: option.splits if_splits)

lemma getScanStatus_state:
  assumes found: "getScan (database st) ident = Some scan"
  shows "snd (getScanStatus now ident updateThrows between st)
     = st\<lparr>database :=
           (if overlay (scanStatus scan) (queueView scan st ident) \<noteq> scanStatus scan
            then (case updateScanStatus updateThrows (between (database st)) ident
                         (overlay (scanStatus scan) (queueView scan st ident))
                         (reconcileError scan (queueView scan st ident)) now of
                    None \<Rightarrow> between (database st)
                  | Some written \<Rightarrow> written)
            else between (database st))\<rparr>"
proof (cases "overlay (scanStatus scan) (queueView scan st ident) = scanStatus scan")
  case True
  then show ?thesis using found
    by (simp add: getScanStatus_def Let_def queueView_def [symmetric])
next
  case False
  from overlay_not_PENDING [OF False]
  have "overlay (scanStatus scan) (queueView scan st ident) = RUNNING
        \<or> overlay (scanStatus scan) (queueView scan st ident) = COMPLETED
        \<or> overlay (scanStatus scan) (queueView scan st ident) = FAILED"
    by (cases "overlay (scanStatus scan) (queueView scan st ident)") auto
  then show ?thesis using found False
    by (simp add: getScanStatus_def Let_def queueView_def [symmetric])
qed


lemma queueView_terminal:
  "scanStatus scan = COMPLETED \<or> scanStatus scan = FAILED \<Longrightarrow> queueView scan st ident = None"
  by (auto simp: queueView_def)




section \<open>Status writes and re-delivery: claims C3 and C2\<close>

lemma filter_map_keep:
  "(\<And>x. scanId (f x) = scanId x) \<Longrightarrow>
   filter (\<lambda>s. scanId s = ident) (map f xs) = map f (filter (\<lambda>s. scanId s = ident) xs)"
  by (induction xs) auto

lemma scanId_setStatus: "scanId (setStatus st0 err now s) = scanId s"
  by (simp add: setStatus_def)

lemma scanRows_member: "scanRows db ident = [row] \<Longrightarrow> scanId row = ident"
proof -
  assume "scanRows db ident = [row]"
  then have "row \<in> set (filter (\<lambda>s. scanId s = ident) (scans db))"
    by (simp add: scanRows_def)
  then show ?thesis by simp
qed

lemma updateRows_single:
  assumes one: "scanRows db ident = [row]"
  shows "scanRows (updateRows db ident st0 err now) ident = [setStatus st0 err now row]"
    and "statusWrites (updateRows db ident st0 err now) = statusWrites db @ [(ident, st0)]"
proof -
  have "filter (\<lambda>s. scanId s = ident)
          (map (\<lambda>s. if scanId s = ident then setStatus st0 err now s else s) (scans db))
        = map (\<lambda>s. if scanId s = ident then setStatus st0 err now s else s)
            (filter (\<lambda>s. scanId s = ident) (scans db))"
    by (rule filter_map_keep) (simp add: scanId_setStatus)
  then show "scanRows (updateRows db ident st0 err now) ident = [setStatus st0 err now row]"
    using one scanRows_member [OF one] by (simp add: updateRows_def scanRows_def)
  show "statusWrites (updateRows db ident st0 err now) = statusWrites db @ [(ident, st0)]"
    using one by (simp add: updateRows_def scanRows_def)
qed

lemma save_single:
  assumes one: "scanRows db ident = [row]"
  shows "scanRows (saveEnhancedAnalysisResults db ident ns out) ident
           = [row\<lparr>globalRiskScore := Math_round (outRiskScore out)\<rparr>]"
    and "statusWrites (saveEnhancedAnalysisResults db ident ns out) = statusWrites db"
proof -
  have "filter (\<lambda>s. scanId s = ident)
          (map (\<lambda>s. if scanId s = ident
                     then s\<lparr>globalRiskScore := Math_round (outRiskScore out)\<rparr> else s) (scans db))
        = map (\<lambda>s. if scanId s = ident
                    then s\<lparr>globalRiskScore := Math_round (outRiskScore out)\<rparr> else s)
            (filter (\<lambda>s. scanId s = ident) (scans db))"
    by (rule filter_map_keep) simp
  then show "scanRows (saveEnhancedAnalysisResults db ident ns out) ident
               = [row\<lparr>globalRiskScore := Math_round (outRiskScore out)\<rparr>]"
    using one scanRows_member [OF one] by (simp add: saveEnhancedAnalysisResults_def scanRows_def)
  show "statusWrites (saveEnhancedAnalysisResults db ident ns out) = statusWrites db"
    by (simp add: saveEnhancedAnalysisResults_def)
qed

lemma markFailed_writes:
  assumes one: "scanRows db ident = [row]"
  shows "statusWrites (snd (markFailed faults now ident message db))
           = statusWrites db @ map (Pair ident) (if failedThrows faults then [] else [FAILED])"
  using updateRows_single(2) [OF one, of FAILED "Some message" now]
  by (simp add: markFailed_def worker_updateScanStatus_def)

lemma withRetry_3:
  "withRetry operation 3
     = (case operation 1 of
          Some r \<Rightarrow> Some r
        | None \<Rightarrow> (case operation 2 of Some r \<Rightarrow> Some r | None \<Rightarrow> operation 3))"
  by (simp add: withRetry_def numeral_3_eq_3 numeral_2_eq_2 split: option.splits)

lemma running_withRetry:
  "withRetry (\<lambda>attempt. worker_updateScanStatus (thr attempt) db ident RUNNING None now) 3
     = (if thr 1 \<and> thr 2 \<and> thr 3 then None else Some (updateRows db ident RUNNING None now))"
  unfolding withRetry_3 by (simp add: worker_updateScanStatus_def)

lemma running_update:
  "withRetry (\<lambda>attempt. worker_updateScanStatus (runningAttemptThrows faults attempt)
                db ident RUNNING None now) 3
     = (if runningThrows faults then None else Some (updateRows db ident RUNNING None now))"
  unfolding running_withRetry runningThrows_def ..

lemma completed_update:
  "worker_updateScanStatus thr db ident COMPLETED None now
     = (if thr then None else Some (updateRows db ident COMPLETED None now))"
  by (simp add: worker_updateScanStatus_def)

lemma processAnalysisTask_writes:
  assumes one: "scanRows db (taskScanId task) = [row]"
  shows "statusWrites (snd (processAnalysisTask analyse faults now task db))
           = statusWrites db @ map (Pair (taskScanId task)) (workerWrites faults (analyse task))"
proof (cases "runningThrows faults")
  case True
  then show ?thesis
    using markFailed_writes [OF one, of faults now "thrownMessage faults"]
    by (simp add: processAnalysisTask_def running_update workerWrites_def Let_def)
next
  case False
  let ?db1 = "updateRows db (taskScanId task) RUNNING None now"
  note r1 = updateRows_single(1) [OF one, of RUNNING None now]
  note w1 = updateRows_single(2) [OF one, of RUNNING None now]
  show ?thesis
  proof (cases "analyse task")
    case (Inl message)
    then show ?thesis
      using False markFailed_writes [OF r1, of faults now message] w1
      by (simp add: processAnalysisTask_def running_update workerWrites_def Let_def)
  next
    case (Inr out)
    let ?db2 = "saveEnhancedAnalysisResults ?db1 (taskScanId task) (scriptRecords task) out"
    note r2 = save_single(1) [OF r1, of "scriptRecords task" out]
    note w2 = save_single(2) [OF r1, of "scriptRecords task" out]
    show ?thesis
    proof (cases "completedThrows faults")
      case True
      then show ?thesis
        using False Inr markFailed_writes [OF r2, of faults now "thrownMessage faults"] w1 w2
        by (simp add: processAnalysisTask_def running_update workerWrites_def Let_def
            completed_update)
    next
      case nothrow: False
      then show ?thesis
        using False Inr updateRows_single(2) [OF r2, of COMPLETED None now] w1 w2
        by (simp add: processAnalysisTask_def running_update workerWrites_def Let_def
            completed_update)
    qed
  qed
qed

lemma newWrites_append:
  "statusWrites after = statusWrites before @ map (Pair ident) ws \<Longrightarrow> newWrites before after = ws"
  by (simp add: newWrites_def comp_def)

lemma workerWrites_cases:
  "workerWrites faults r \<in> set [[RUNNING, COMPLETED], [RUNNING, FAILED], [RUNNING], [FAILED], []]"
  by (auto simp: workerWrites_def Let_def split: sum.splits)

lemma workerWrites_no_faults:
  "\<not> runningThrows faults \<Longrightarrow> \<not> completedThrows faults \<Longrightarrow> \<not> failedThrows faults \<Longrightarrow>
   workerWrites faults r = [RUNNING, finalStatus r]"
  by (auto simp: workerWrites_def Let_def finalStatus_def split: sum.splits)

lemma workerWrites_forward:
  "s = PENDING \<or> s = RUNNING \<Longrightarrow> neverBackwards (s # workerWrites faults r)"
  by (auto simp: workerWrites_def Let_def neverBackwards_def split: sum.splits)

lemma overlay_later:
  "s = PENDING \<or> s = RUNNING \<Longrightarrow> overlay s js \<noteq> s \<Longrightarrow> rank s < rank (overlay s js)"
  by (auto simp: overlay_def Let_def split: option.splits if_splits)

lemma overlay_terminal_unchanged:
  "scanStatus scan = COMPLETED \<or> scanStatus scan = FAILED \<Longrightarrow>
   overlay (scanStatus scan) (queueView scan st ident) = scanStatus scan"
  by (simp add: queueView_terminal overlay_def)

lemma overlay_view_later:
  assumes "overlay (scanStatus scan) (queueView scan st ident) \<noteq> scanStatus scan"
  shows "rank (scanStatus scan) < rank (overlay (scanStatus scan) (queueView scan st ident))"
proof (cases "scanStatus scan = PENDING \<or> scanStatus scan = RUNNING")
  case True
  then show ?thesis using assms by (rule overlay_later)
next
  case False
  then have "scanStatus scan = COMPLETED \<or> scanStatus scan = FAILED"
    by (cases "scanStatus scan") auto
  then show ?thesis using assms by (simp add: overlay_terminal_unchanged)
qed

lemma getScanStatus_newWrites:
  assumes found: "getScan (database st) ident = Some scan"
  shows "list_all (\<lambda>s. rank (scanStatus scan) < rank s)
           (newWrites (between (database st))
              (database (snd (getScanStatus now ident updateThrows between st))))"
proof (cases "overlay (scanStatus scan) (queueView scan st ident) = scanStatus scan")
  case True
  then show ?thesis
    using getScanStatus_state [OF found, of now updateThrows between]
    by (simp add: newWrites_def)
next
  case False
  then show ?thesis
    using getScanStatus_state [OF found, of now updateThrows between] overlay_view_later [OF False]
    by (auto simp: newWrites_def updateScanStatus_def updateRows_def list_all_iff)
qed

text \<open>
  C3, as the code has it. Each writer, taken alone, writes forward. The status handler of
  the API writes nothing when the row it read is completed or failed, and every status it
  does write is later in the lifecycle than the one it read. One run of the analysis task
  writes to its scan only, and what it writes is one of: running then completed, running
  then failed, running alone, failed alone, or nothing (running is missing when that
  UPDATE throws on all its attempts, the last status when its UPDATE throws); when no
  UPDATE throws it is running and then completed or failed; and the status the row held
  when the run started, if pending or running, followed by what the run writes never moves
  backwards. Nothing more holds: the UPDATE has no condition on the status the row holds.
\<close>

theorem C3_status_writes_forward:
  "(getScan (database st) ident = Some scan \<longrightarrow>
      (scanStatus scan = COMPLETED \<or> scanStatus scan = FAILED \<longrightarrow>
         snd (getScanStatus now ident updateThrows between st)
           = st\<lparr>database := between (database st)\<rparr>)
      \<and> list_all (\<lambda>s. rank (scanStatus scan) < rank s)
            (newWrites (between (database st))
               (database (snd (getScanStatus now ident updateThrows between st)))))
   \<and> (scanRows db (taskScanId task) = [row] \<longrightarrow>
        statusWrites (snd (processAnalysisTask analyse faults now task db))
          = statusWrites db
              @ map (Pair (taskScanId task))
                  (newWrites db (snd (processAnalysisTask analyse faults now task db)))
        \<and> newWrites db (snd (processAnalysisTask analyse faults now task db))
            \<in> set [[RUNNING, COMPLETED], [RUNNING, FAILED], [RUNNING], [FAILED], []]
        \<and> (\<not> runningThrows faults \<and> \<not> completedThrows faults \<and> \<not> failedThrows faults \<longrightarrow>
             newWrites db (snd (processAnalysisTask analyse faults now task db))
               = [RUNNING, finalStatus (analyse task)])
        \<and> (scanStatus row = PENDING \<or> scanStatus row = RUNNING \<longrightarrow>
             neverBackwards
               (scanStatus row
                  # newWrites db (snd (processAnalysisTask analyse faults now task db)))))"
proof (intro conjI impI)
  assume found: "getScan (database st) ident = Some scan"
    and terminal: "scanStatus scan = COMPLETED \<or> scanStatus scan = FAILED"
  show "snd (getScanStatus now ident updateThrows between st)
          = st\<lparr>database := between (database st)\<rparr>"
    using getScanStatus_state [OF found, of now updateThrows between]
      overlay_terminal_unchanged [OF terminal, of st ident]
    by simp
next
  assume found: "getScan (database st) ident = Some scan"
  show "list_all (\<lambda>s. rank (scanStatus scan) < rank s)
            (newWrites (between (database st))
               (database (snd (getScanStatus now ident updateThrows between st))))"
    by (rule getScanStatus_newWrites [OF found])
next
  assume one: "scanRows db (taskScanId task) = [row]"
  note writes = processAnalysisTask_writes [OF one, of analyse faults now]
  note new = newWrites_append [OF writes]
  show "statusWrites (snd (processAnalysisTask analyse faults now task db))
          = statusWrites db
              @ map (Pair (taskScanId task))
                  (newWrites db (snd (processAnalysisTask analyse faults now task db)))"
    using writes by (simp only: new)
  show "newWrites db (snd (processAnalysisTask analyse faults now task db))
            \<in> set [[RUNNING, COMPLETED], [RUNNING, FAILED], [RUNNING], [FAILED], []]"
    using workerWrites_cases [of faults "analyse task"] by (simp only: new)
next
  assume one: "scanRows db (taskScanId task) = [row]"
    and none: "\<not> runningThrows faults \<and> \<not> completedThrows faults \<and> \<not> failedThrows faults"
  note new = newWrites_append [OF processAnalysisTask_writes [OF one, of analyse faults now]]
  show "newWrites db (snd (processAnalysisTask analyse faults now task db))
               = [RUNNING, finalStatus (analyse task)]"
    using none workerWrites_no_faults [of faults "analyse task"] by (simp add: new)
next
  assume one: "scanRows db (taskScanId task) = [row]"
    and live: "scanStatus row = PENDING \<or> scanStatus row = RUNNING"
  note new = newWrites_append [OF processAnalysisTask_writes [OF one, of analyse faults now]]
  show "neverBackwards
               (scanStatus row
                  # newWrites db (snd (processAnalysisTask analyse faults now task db)))"
    using workerWrites_forward [OF live, of faults "analyse task"] by (simp only: new)
qed

theorem C3_status_writes_forward_witness:
  "getScan (database retryingState) ''s1'' = Some failedScan
   \<and> scanStatus failedScan = FAILED
   \<and> snd (getScanStatus 9000 ''s1'' False id retryingState)
       = retryingState\<lparr>database := id (database retryingState)\<rparr>
   \<and> getScan (database workerFailedState) ''s2'' = Some runningScan
   \<and> newWrites (id (database workerFailedState))
         (database (snd (getScanStatus 9000 ''s2'' False id workerFailedState)))
       = [FAILED]
   \<and> rank (scanStatus runningScan) < rank FAILED
   \<and> scanRows (database workerFailedState) ''s2'' = [runningScan]
   \<and> scanStatus runningScan = RUNNING
   \<and> \<not> runningThrows noWorkerFaults \<and> \<not> completedThrows noWorkerFaults
   \<and> \<not> failedThrows noWorkerFaults
   \<and> newWrites (database workerFailedState)
         (snd (processAnalysisTask noDetections noWorkerFaults 9000
                 \<lparr>taskScanId = ''s2'', inlineScripts = [], externalScripts = []\<rparr>
                 (database workerFailedState)))
       = [RUNNING, COMPLETED]
   \<and> neverBackwards [scanStatus runningScan, RUNNING, COMPLETED]
   \<and> newWrites (database workerFailedState)
         (snd (processAnalysisTask noDetections runningUpdateFails 9000
                 \<lparr>taskScanId = ''s2'', inlineScripts = [], externalScripts = []\<rparr>
                 (database workerFailedState)))
       = [FAILED]"
proof -
  let ?task = "\<lparr>taskScanId = ''s2'', inlineScripts = [], externalScripts = []\<rparr>"
  have f1: "getScan (database retryingState) ''s1'' = Some failedScan"
    by code_simp
  have t1: "scanStatus failedScan = FAILED"
    by (simp add: failedScan_def)
  have f2: "getScan (database workerFailedState) ''s2'' = Some runningScan"
    by code_simp
  have n2: "newWrites (id (database workerFailedState))
              (database (snd (getScanStatus 9000 ''s2'' False id workerFailedState)))
            = [FAILED]"
    by code_simp
  have r: "scanRows (database workerFailedState) (taskScanId ?task) = [runningScan]"
    by code_simp
  have s: "scanStatus runningScan = RUNNING"
    by (simp add: runningScan_def)
  have nf: "\<not> runningThrows noWorkerFaults \<and> \<not> completedThrows noWorkerFaults
            \<and> \<not> failedThrows noWorkerFaults"
    by (simp add: runningThrows_def noWorkerFaults_def)
  have fin: "finalStatus (noDetections ?task) = COMPLETED"
    by (simp add: finalStatus_def noDetections_def)
  have thrown: "newWrites (database workerFailedState)
                  (snd (processAnalysisTask noDetections runningUpdateFails 9000 ?task
                          (database workerFailedState)))
                = [FAILED]"
    by code_simp
  note terminal = C3_status_writes_forward
    [where st = retryingState and ident = "''s1''" and scan = failedScan and now = 9000
       and updateThrows = False and between = id]
  note reconcile = C3_status_writes_forward
    [where st = workerFailedState and ident = "''s2''" and scan = runningScan and now = 9000
       and updateThrows = False and between = id]
  note run = C3_status_writes_forward
    [where task = ?task and db = "database workerFailedState" and row = runningScan
       and analyse = noDetections and faults = noWorkerFaults and now = 9000]
  have untouched: "snd (getScanStatus 9000 ''s1'' False id retryingState)
                     = retryingState\<lparr>database := id (database retryingState)\<rparr>"
    using terminal [THEN conjunct1] f1 t1 by simp
  have later: "rank (scanStatus runningScan) < rank FAILED"
    using reconcile [THEN conjunct1] f2 n2 by simp
  have writes: "newWrites (database workerFailedState)
                  (snd (processAnalysisTask noDetections noWorkerFaults 9000 ?task
                          (database workerFailedState)))
                = [RUNNING, COMPLETED]"
    using run [THEN conjunct2] r nf fin by simp
  have forward: "neverBackwards [scanStatus runningScan, RUNNING, COMPLETED]"
    using run [THEN conjunct2] r s writes by simp
  show ?thesis
    using f1 t1 untouched f2 n2 later r s nf writes forward thrown by simp
qed

text \<open>
  C3 as stated fails for a task that is delivered again after its scan has completed: the
  row's history then reads pending, running, completed, running, completed.
\<close>

theorem C3_status_writes_counterexample:
  "statusHistory completedDatabase ''s3'' = [PENDING, RUNNING, COMPLETED]
   \<and> statusHistory
       (snd (processAnalysisTask noDetections noWorkerFaults 9000 redeliveredTask
               completedDatabase)) ''s3''
       = [PENDING, RUNNING, COMPLETED, RUNNING, COMPLETED]
   \<and> \<not> neverBackwards
         (statusHistory
            (snd (processAnalysisTask noDetections noWorkerFaults 9000 redeliveredTask
                    completedDatabase)) ''s3'')"
  by code_simp

text \<open>
  Two more runs the code allows. The status handler reads a pending row; before its
  write-back a worker runs the task, which fails; the handler then writes running over
  failed. And a run whose UPDATE to running throws writes failed alone.
\<close>

lemma getScanStatus_stale_read:
  "statusHistory (database pendingState) ''s4'' = [PENDING]
   \<and> statusHistory (failingRun (database pendingState)) ''s4'' = [PENDING, RUNNING, FAILED]
   \<and> map_option respStatus (fst (getScanStatus 9000 ''s4'' False failingRun pendingState))
       = Some RUNNING
   \<and> statusHistory
         (database (snd (getScanStatus 9000 ''s4'' False failingRun pendingState))) ''s4''
       = [PENDING, RUNNING, FAILED, RUNNING]"
  by code_simp

lemma processAnalysisTask_running_update_throws:
  "newWrites (database pendingState)
     (snd (processAnalysisTask noDetections runningUpdateFails 9000
             \<lparr>taskScanId = ''s4'', inlineScripts = [], externalScripts = []\<rparr>
             (database pendingState)))
   = [FAILED]"
  by code_simp

text \<open>
  C2, as the code has it. When the scan object handed to the minimal analyzer is completed
  and the scan has a library or a finding row, \<open>minimalAnalyzeAndPersist\<close> returns
  those rows and leaves the database as it is, whatever the rest of the analysis would do;
  calling it again gives the same answer. (The analysis task of the queue worker has no
  such guard.)
\<close>

theorem C2_minimal_analyzer_short_circuit:
  assumes completed: "scanStatus scan = COMPLETED"
    and rows: "getLibrariesByScan db (scanId scan) \<noteq> [] \<or> getFindingsByScan db (scanId scan) \<noteq> []"
  shows "minimalAnalyzeAndPersist rest db scan
           = (db, getLibrariesByScan db (scanId scan), getFindingsByScan db (scanId scan))
         \<and> minimalAnalyzeAndPersist rest (fst (minimalAnalyzeAndPersist rest db scan)) scan
           = minimalAnalyzeAndPersist rest db scan"
proof -
  have first: "minimalAnalyzeAndPersist rest db scan
           = (db, getLibrariesByScan db (scanId scan), getFindingsByScan db (scanId scan))"
    using completed rows by (auto simp: minimalAnalyzeAndPersist_def Let_def)
  then show ?thesis by simp
qed

theorem C2_minimal_analyzer_short_circuit_witness:
  "scanStatus completedScan = COMPLETED
   \<and> getFindingsByScan completedDatabase (scanId completedScan) = [summaryFinding]
   \<and> minimalAnalyzeAndPersist insertSummary completedDatabase completedScan
       = (completedDatabase, getLibrariesByScan completedDatabase (scanId completedScan),
          [summaryFinding])
   \<and> findings (fst (insertSummary completedDatabase completedScan))
       = [summaryFinding, summaryFinding]"
proof -
  have c: "scanStatus completedScan = COMPLETED"
    by (simp add: completedScan_def)
  have fs: "getFindingsByScan completedDatabase (scanId completedScan) = [summaryFinding]"
    by code_simp
  have rows: "getLibrariesByScan completedDatabase (scanId completedScan) \<noteq> []
              \<or> getFindingsByScan completedDatabase (scanId completedScan) \<noteq> []"
    using fs by simp
  have ins: "findings (fst (insertSummary completedDatabase completedScan))
             = [summaryFinding, summaryFinding]"
    by (simp add: insertSummary_def completedDatabase_def)
  show ?thesis
    using C2_minimal_analyzer_short_circuit [OF c rows, of insertSummary] c fs ins
    by simp
qed

text \<open>
  C2 as stated fails for the queue worker: the task delivered again for the completed scan
  inserts its script row a second time.
\<close>

theorem C2_redelivery_counterexample:
  "scanStatus completedScan = COMPLETED
   \<and> length (getLibrariesByScan completedDatabase ''s3'') = 1
   \<and> length (getFindingsByScan completedDatabase ''s3'') = 1
   \<and> length (getScriptsByScan completedDatabase ''s3'') = 1
   \<and> length (getScriptsByScan
         (snd (processAnalysisTask noDetections noWorkerFaults 9000 redeliveredTask
                 completedDatabase)) ''s3'') = 2"
  by code_simp

section \<open>The per-URL cooldown: claim C7\<close>





section \<open>SSRF validation: claim C1\<close>

text \<open>
  What the validator does reject: a request whose URL fails validation is answered 400 and
  changes nothing; and the addresses \<open>isPrivateIp\<close> recognises are the IPv4 ranges
  10/8, 127/8, 169.254/16, 192.168/16 and 172.16/12 and, among IPv6 addresses, ::1 and
  those whose text starts with fc, fd or fe80.
\<close>

lemma createScan_rejected:
  "validateTargetUrl pf u = Inl e \<Longrightarrow>
   createScan pf faults env now newId (Some u) st = (DisallowedTargetUrl e, st)"
  by (simp add: createScan_def)

lemma isPrivateIp_v4:
  assumes "isIPfn ip = 4"
    and "map parseInt (split (CHR ''.'') ip) = [Some a, Some b, Some c, Some d]"
  shows "isPrivateIp isIPfn ip
           = (a = 10 \<or> a = 127 \<or> (a = 169 \<and> b = 254) \<or> (a = 192 \<and> b = 168)
              \<or> (a = 172 \<and> 16 \<le> b \<and> b \<le> 31))"
  using assms by (auto simp: isPrivateIp_def Let_def)

lemma isPrivateIp_v6:
  assumes "isIPfn ip = 6"
  shows "isPrivateIp isIPfn ip
           = (toLowerCase ip = ''::1'' \<or> startsWith (toLowerCase ip) ''fc''
              \<or> startsWith (toLowerCase ip) ''fd'' \<or> startsWith (toLowerCase ip) ''fe80'')"
  using assms by (auto simp: isPrivateIp_def Let_def)

lemma validateTargetUrl_private_record:
  assumes "newURL pf u = Some parsed"
    and "lookup pf (toLowerCase (hostname parsed)) = Inr records"
    and "list_ex (isPrivateIp (isIP pf)) records"
  shows "validateTargetUrl pf u \<in> {Inl UnsupportedProtocol, Inl LocalAddress, Inl PrivateAddress}"
  using assms by (simp add: validateTargetUrl_def Let_def)

lemma validateTargetUrl_accepts_only_public:
  "validateTargetUrl pf u = Inr parsed \<Longrightarrow>
   (\<exists>records. lookup pf (toLowerCase (hostname parsed)) = Inr records
       \<and> \<not> list_ex (isPrivateIp (isIP pf)) records)"
  by (auto simp: validateTargetUrl_def Let_def split: option.splits if_splits sum.splits DnsError.splits)

text \<open>
  C1 at a host that resolves to fe90::1, an address of the link-local range fe80::/10:
  the validator compares the address text with the prefix fe80 only, accepts the URL, and
  the handler creates the scan and enqueues its job.
\<close>

theorem C1_link_local_address_accepted:
  "isPrivateIp (isIP linkLocalPlatform) ''fe90::1'' = False
   \<and> validateTargetUrl linkLocalPlatform ''http://printer.corp.example/''
       = Inr \<lparr>protocol = ''http:'', hostname = ''printer.corp.example''\<rparr>
   \<and> fst (createScan linkLocalPlatform noFaults None 1000 ''id-1''
            (Some ''http://printer.corp.example/'') emptyState)
       = ScanCreated ''id-1''
   \<and> map jobId (scanQueue (taskQueue (snd (createScan linkLocalPlatform noFaults None 1000
          ''id-1'' (Some ''http://printer.corp.example/'') emptyState))))
       = [''id-1'']"
  by code_simp

section \<open>The vulnerability cache: claim C8\<close>

text \<open>
  For a key with a version, and for any key that has no row yet, a read after a write
  returns the written list exactly while \<open>now \<le> lastUpdated + ttl * 1000\<close>.
\<close>

lemma cache_versioned:
  "getVulnerabilityCacheEntry
     (upsertVulnerabilityCacheEntry table name (Some v) vulns ttlSeconds t0) name (Some v) now
   = (if now > t0 + ttlSeconds * 1000 then None else Some (vulns, t0, ttlSeconds))"
  by (induction table) (auto simp: getVulnerabilityCacheEntry_def conflicts_def Let_def)

lemma cache_fresh_key:
  "filter (\<lambda>r. packageName r = name \<and> cacheVersion r = version) table = [] \<Longrightarrow>
   getVulnerabilityCacheEntry
     (upsertVulnerabilityCacheEntry table name version vulns ttlSeconds t0) name version now
   = (if now > t0 + ttlSeconds * 1000 then None else Some (vulns, t0, ttlSeconds))"
  by (induction table) (auto simp: getVulnerabilityCacheEntry_def conflicts_def Let_def split: option.splits if_splits)

text \<open>
  C8 at a key without a version that is written twice: the second write adds a second row
  instead of replacing the first, the read takes the first row, finds it expired and
  reports a miss half a second after the second write, whose time to live is one second.
  The same two writes with a version give a hit.
\<close>

theorem C8_unversioned_key_stale_read:
  "map cacheVersion unversionedTwice = [None, None]
   \<and> map lastUpdated unversionedTwice = [0, 10000]
   \<and> getVulnerabilityCacheEntry unversionedTwice ''lodash'' None 10500 = None
   \<and> getVulnerabilityCacheEntry versionedTwice ''lodash'' (Some ''4.17.20'') 10500
       = Some ([''GHSA-second''], 10000, 1)"
  by code_simp

end
